theory Spec2Isabelle
  imports Main "HOL-Library.Word"
begin

section \<open>Data model (internal/blockchain/block.go)\<close>

text \<open>
  A \<^verbatim>\<open>time.Time\<close> is the number of nanoseconds since the Unix epoch;
  \<^verbatim>\<open>Unix()\<close> is its number of whole seconds.
\<close>

type_synonym Time = int

definition Unix :: "Time \<Rightarrow> int" where
  "Unix t = t div 1000000000"

text \<open>
  The values a \<^verbatim>\<open>map[string]interface{}\<close> holds in this program: nil, booleans,
  Go ints, float64 (its 64 bits), strings, times, slices and nested maps. Values are finite
  trees, as every value built by the program or decoded from JSON is. A Go map is a partial
  function on its keys; a nil map reads like an empty one.
\<close>

datatype gvalue =
    VNil
  | VBool bool
  | VInt int
  | VFloat64 "64 word"
  | VString string
  | VTime Time
  | VSlice "gvalue list"
  | VMap "string \<Rightarrow> gvalue option"

type_synonym gmap = "string \<Rightarrow> gvalue option"

record Block =
  Index :: int
  Timestamp :: Time
  Data :: gmap
  PreviousHash :: string
  Hash :: string
  Nonce :: int
  Type :: string

type_synonym ContractStatus = string

definition StatusDraft :: ContractStatus where "StatusDraft = ''DRAFT''"
definition StatusTechnicalReview :: ContractStatus where "StatusTechnicalReview = ''TECHNICAL_REVIEW''"
definition StatusLegalReview :: ContractStatus where "StatusLegalReview = ''LEGAL_REVIEW''"
definition StatusContractsReview :: ContractStatus where "StatusContractsReview = ''CONTRACTS_REVIEW''"
definition StatusAdminReview :: ContractStatus where "StatusAdminReview = ''ADMIN_REVIEW''"
definition StatusBudgetReview :: ContractStatus where "StatusBudgetReview = ''BUDGET_REVIEW''"
definition StatusAuthorizedForPublication :: ContractStatus where
  "StatusAuthorizedForPublication = ''AUTHORIZED_FOR_PUBLICATION''"
definition StatusCompleted :: ContractStatus where "StatusCompleted = ''COMPLETED''"
definition StatusRejected :: ContractStatus where "StatusRejected = ''REJECTED''"

type_synonym AdminRole = string

definition RoleProjectDeveloper :: AdminRole where "RoleProjectDeveloper = ''PROJECT_DEVELOPER''"
definition RoleTechnicalCommission :: AdminRole where "RoleTechnicalCommission = ''TECHNICAL_COMMISSION''"
definition RoleLegalCommission :: AdminRole where "RoleLegalCommission = ''LEGAL_COMMISSION''"
definition RoleContractsChief :: AdminRole where "RoleContractsChief = ''CONTRACTS_CHIEF''"
definition RoleAdminChief :: AdminRole where "RoleAdminChief = ''ADMIN_CHIEF''"
definition RoleBudgetAuthority :: AdminRole where "RoleBudgetAuthority = ''BUDGET_AUTHORITY''"
definition RoleComptroller :: AdminRole where "RoleComptroller = ''COMPTROLLER''"
definition RoleProsecutor :: AdminRole where "RoleProsecutor = ''PROSECUTOR''"
definition RoleCitizen :: AdminRole where "RoleCitizen = ''CITIZEN''"

type_synonym ValidationStatus = string

definition ValidationPending :: ValidationStatus where "ValidationPending = ''PENDING''"
definition ValidationApproved :: ValidationStatus where "ValidationApproved = ''APPROVED''"
definition ValidationRejected :: ValidationStatus where "ValidationRejected = ''REJECTED''"
definition ValidationInReview :: ValidationStatus where "ValidationInReview = ''IN_REVIEW''"

text \<open>
  Field names that two structs share carry the struct as a prefix in the second one
  (\<open>StepStatus\<close> is \<^verbatim>\<open>ValidationStep.Status\<close>, \<open>AuditID\<close> is \<^verbatim>\<open>AuditEntry.ID\<close>).
\<close>

record ValidationStep =
  StepNumber :: int
  Role :: AdminRole
  ValidatorID :: string
  ValidatorName :: string
  StepStatus :: ValidationStatus
  StepTimestamp :: Time
  Comments :: string
  Required :: bool
  DigitalSign :: string
  Documents :: "string list"

record AuditEntry =
  AuditID :: string
  Action :: string
  UserID :: string
  UserRole :: AdminRole
  AuditTimestamp :: Time
  AuditDescription :: string
  IPAddress :: string
  BlockHash :: string

record Contract =
  ID :: string
  EntityCode :: string
  EntityName :: string
  ContractType :: string
  Description :: string
  Amount :: "64 word"
  Status :: ContractStatus
  CreatedBy :: string
  CreatedAt :: Time
  UpdatedAt :: Time
  ValidationSteps :: "ValidationStep list"
  CurrentStep :: int
  RequiredRoles :: "string list"
  AuditTrail :: "AuditEntry list"

text \<open>
  The ledger. The chain is a slice of pointers to blocks that no operation modelled here
  writes through, and every producer of a chain (\<^verbatim>\<open>NewBlockchain\<close>, \<^verbatim>\<open>AddBlock\<close>,
  \<^verbatim>\<open>SyncWithPeers\<close>) stores non-nil pointers: the chain is the list of the blocks
  pointed to. Each contract of the map is a pointer the map alone holds: the map holds the
  contract.
\<close>

record Blockchain =
  Chain :: "Block list"
  Contracts :: "string \<Rightarrow> Contract option"

text \<open>
  Errors, one constructor for each error the code builds, and \<open>Panic\<close> for a run-time
  panic (an index out of range).
\<close>

datatype error =
    ContractNotFound
  | StepMismatch int int
  | StepOutOfRange
  | RoleNotAuthorized
  | InvalidBlock
  | ChainTooShort
  | ChainInvalid
  | InvalidBlockReceived
  | AddBlockFailed error
  | Panic

section \<open>Blocks and their hash (block.go)\<close>

text \<open>
  \<^verbatim>\<open>hex.EncodeToString\<close>: two lower-case hexadecimal digits for each byte.
\<close>

definition hexdigit :: "nat \<Rightarrow> char" where
  "hexdigit n = ''0123456789abcdef'' ! (n mod 16)"

definition hex_EncodeToString :: "8 word list \<Rightarrow> string" where
  "hex_EncodeToString bs =
     concat (map (\<lambda>b. [hexdigit (unat b div 16), hexdigit (unat b mod 16)]) bs)"

text \<open>
  \<^verbatim>\<open>calculateHash\<close> builds the six-key record, marshals it to JSON, takes its SHA-256
  and encodes the 32 bytes in hexadecimal. The two library calls
  \<^verbatim>\<open>sha256.Sum256(json.Marshal(record))\<close> are the parameter \<open>D\<close>: for a record it
  gives the byte at each position of the \<^verbatim>\<open>[32]byte\<close> array. Everything below holds for
  every such function.
\<close>

type_synonym digest = "gmap \<Rightarrow> nat \<Rightarrow> 8 word"

definition hash_record :: "Block \<Rightarrow> gmap" where
  "hash_record b =
     [''index'' \<mapsto> VInt (Index b),
      ''timestamp'' \<mapsto> VInt (Unix (Timestamp b)),
      ''data'' \<mapsto> VMap (Data b),
      ''previous_hash'' \<mapsto> VString (PreviousHash b),
      ''nonce'' \<mapsto> VInt (Nonce b),
      ''type'' \<mapsto> VString (Type b)]"

definition calculateHash :: "digest \<Rightarrow> Block \<Rightarrow> string" where
  "calculateHash D b = hex_EncodeToString (map (D (hash_record b)) [0..<32])"

definition NewBlock :: "digest \<Rightarrow> Time \<Rightarrow> gmap \<Rightarrow> string \<Rightarrow> Block" where
  "NewBlock D now data previousHash =
     (let block = \<lparr>Index = 0, Timestamp = now, Data = data, PreviousHash = previousHash,
                   Hash = '''', Nonce = 0, Type = ''''\<rparr>
      in block\<lparr>Hash := calculateHash D block\<rparr>)"

definition IsValid :: "digest \<Rightarrow> Block \<Rightarrow> bool" where
  "IsValid D b = (Hash b = calculateHash D b)"

section \<open>The ledger (blockchain.go)\<close>

text \<open>
  \<^verbatim>\<open>NewBlockchain\<close>: the chain holding the genesis block, and no contract. The time is
  what \<^verbatim>\<open>config.GetColombianTime()\<close> returned.
\<close>

definition genesisBlock :: "digest \<Rightarrow> Time \<Rightarrow> Block" where
  "genesisBlock D now =
     (let g = \<lparr>Index = 0, Timestamp = now,
               Data = [''message'' \<mapsto> VString ''SECOP Blockchain Genesis Block''],
               PreviousHash = '''', Hash = '''', Nonce = 0, Type = ''''\<rparr>
      in g\<lparr>Hash := calculateHash D g\<rparr>)"

definition NewBlockchain :: "digest \<Rightarrow> Time \<Rightarrow> Blockchain" where
  "NewBlockchain D now = \<lparr>Chain = [genesisBlock D now], Contracts = Map.empty\<rparr>"

text \<open>\<^verbatim>\<open>getLatestBlock\<close> reads \<^verbatim>\<open>bc.Chain[len(bc.Chain)-1]\<close>: a panic on an empty chain.\<close>

definition getLatestBlock :: "Blockchain \<Rightarrow> Block option" where
  "getLatestBlock bc = (if Chain bc = [] then None else Some (last (Chain bc)))"

definition IsValidBlock :: "digest \<Rightarrow> Blockchain \<Rightarrow> Block \<Rightarrow> bool" where
  "IsValidBlock D bc block =
     (if Hash block = '''' then False
      else if Hash block \<noteq> calculateHash D block then False
      else if Index block > 0 then
        (if length (Chain bc) = 0 \<or> Hash (last (Chain bc)) \<noteq> PreviousHash block then False
         else True)
      else True)"

primrec HasBlock_loop :: "Block list \<Rightarrow> string \<Rightarrow> bool" where
  "HasBlock_loop [] h = False"
| "HasBlock_loop (block # rest) h = (if Hash block = h then True else HasBlock_loop rest h)"

definition HasBlock :: "Blockchain \<Rightarrow> string \<Rightarrow> bool" where
  "HasBlock bc h = HasBlock_loop (Chain bc) h"

text \<open>
  \<^verbatim>\<open>AddBlock\<close> returns the block or an error, and the ledger after the call. The type
  assertion \<^verbatim>\<open>blockData["type"].(string)\<close> holds for a string value only.
\<close>

definition AddBlock ::
  "digest \<Rightarrow> Time \<Rightarrow> Blockchain \<Rightarrow> gmap \<Rightarrow> (error + Block) \<times> Blockchain" where
  "AddBlock D now bc blockData =
     (case getLatestBlock bc of
        None \<Rightarrow> (Inl Panic, bc)
      | Some latest \<Rightarrow>
          (let block0 = NewBlock D now blockData (Hash latest);
               block1 = block0\<lparr>Index := int (length (Chain bc))\<rparr>;
               block2 = (case blockData ''type'' of
                           Some (VString blockType) \<Rightarrow> block1\<lparr>Type := blockType\<rparr>
                         | _ \<Rightarrow> block1);
               block = block2\<lparr>Hash := calculateHash D block2\<rparr>
           in if \<not> IsValidBlock D bc block then (Inl InvalidBlock, bc)
              else (Inr block, bc\<lparr>Chain := Chain bc @ [block]\<rparr>)))"

text \<open>
  \<^verbatim>\<open>IsValidChain\<close>: the loop carries the block before the current one (none at
  \<open>i = 0\<close>).
\<close>

fun IsValidChain_loop :: "Block option \<Rightarrow> Block list \<Rightarrow> bool" where
  "IsValidChain_loop prev [] = True"
| "IsValidChain_loop prev (block # rest) =
     (if Hash block = '''' then False
      else if (case prev of None \<Rightarrow> False | Some p \<Rightarrow> PreviousHash block \<noteq> Hash p) then False
      else IsValidChain_loop (Some block) rest)"

definition IsValidChain :: "Block list \<Rightarrow> bool" where
  "IsValidChain chain = (if length chain = 0 then False else IsValidChain_loop None chain)"

definition ReplaceChain :: "Blockchain \<Rightarrow> Block list \<Rightarrow> (error + unit) \<times> Blockchain" where
  "ReplaceChain bc newChain =
     (if length newChain \<le> length (Chain bc) then (Inl ChainTooShort, bc)
      else if \<not> IsValidChain newChain then (Inl ChainInvalid, bc)
      else (Inr (), bc\<lparr>Chain := newChain\<rparr>))"

section \<open>The workflow (blockchain.go, WorkflowManager)\<close>

text \<open>
  What the calls to \<^verbatim>\<open>uuid.New()\<close> and \<^verbatim>\<open>config.GetColombianTime()\<close> returned during
  one operation, in the order the operation makes them: the time written in the step, the
  identifier and the time of the audit entry, the time written in \<^verbatim>\<open>UpdatedAt\<close>, the time
  put in the block's payload, and the time \<^verbatim>\<open>NewBlock\<close> read.
\<close>

record Env =
  stepTime :: Time
  auditID :: string
  auditTime :: Time
  updatedTime :: Time
  payloadTime :: Time
  blockTime :: Time

record WorkflowStep =
  wsStepNumber :: int
  wsRole :: AdminRole
  wsName :: string
  wsRequired :: bool

definition GetWorkflowSteps :: "WorkflowStep list" where
  "GetWorkflowSteps =
     [\<lparr>wsStepNumber = 1, wsRole = RoleProjectDeveloper, wsName = ''Creacion del Proyecto'', wsRequired = True\<rparr>,
      \<lparr>wsStepNumber = 2, wsRole = RoleTechnicalCommission, wsName = ''Revision Tecnica'', wsRequired = True\<rparr>,
      \<lparr>wsStepNumber = 3, wsRole = RoleLegalCommission, wsName = ''Revision Juridica'', wsRequired = True\<rparr>,
      \<lparr>wsStepNumber = 4, wsRole = RoleContractsChief, wsName = ''Aprobacion Jefe de Contratos'', wsRequired = True\<rparr>,
      \<lparr>wsStepNumber = 5, wsRole = RoleAdminChief, wsName = ''Aprobacion Jefe Administrativo'', wsRequired = True\<rparr>,
      \<lparr>wsStepNumber = 6, wsRole = RoleBudgetAuthority, wsName = ''Autorizacion Ordenador del Gasto'', wsRequired = True\<rparr>]"

text \<open>
  The names of the steps above are written without their accents.
  \<^verbatim>\<open>%d\<close> of \<^verbatim>\<open>fmt.Sprintf\<close>: an integer in decimal.
\<close>

fun decimal :: "nat \<Rightarrow> string" where
  "decimal n =
     (if n < 10 then [''0123456789'' ! n]
      else decimal (n div 10) @ [''0123456789'' ! (n mod 10)])"

declare decimal.simps [simp del]

definition fmt_d :: "int \<Rightarrow> string" where
  "fmt_d i = (if i < 0 then ''-'' @ decimal (nat (- i)) else decimal (nat i))"

definition addAuditEntry ::
  "Env \<Rightarrow> Contract \<Rightarrow> string \<Rightarrow> string \<Rightarrow> AdminRole \<Rightarrow> string \<Rightarrow> Contract" where
  "addAuditEntry env contract action userID role description =
     contract\<lparr>AuditTrail := AuditTrail contract @
       [\<lparr>AuditID = auditID env, Action = action, UserID = userID, UserRole = role,
         AuditTimestamp = auditTime env, AuditDescription = description,
         IPAddress = '''', BlockHash = ''''\<rparr>]\<rparr>"

text \<open>
  \<^verbatim>\<open>InitializeContractWorkflow\<close>: one pending step for each workflow step; the zero
  \<^verbatim>\<open>time.Time{}\<close> is 1 January of year 1. It returns no error.
\<close>

definition zeroTime :: Time where
  "zeroTime = - 62135596800 * 1000000000"

definition InitializeContractWorkflow :: "Env \<Rightarrow> Contract \<Rightarrow> Contract" where
  "InitializeContractWorkflow env contract =
     (let c1 = contract\<lparr>ValidationSteps :=
                 map (\<lambda>step. \<lparr>StepNumber = wsStepNumber step, Role = wsRole step,
                               ValidatorID = '''', ValidatorName = '''',
                               StepStatus = ValidationPending, StepTimestamp = zeroTime,
                               Comments = '''', Required = wsRequired step,
                               DigitalSign = '''', Documents = []\<rparr>) GetWorkflowSteps\<rparr>;
          c2 = c1\<lparr>CurrentStep := 1, Status := StatusDraft, UpdatedAt := updatedTime env\<rparr>
      in addAuditEntry env c2 ''WORKFLOW_INITIALIZED'' (CreatedBy c2) RoleProjectDeveloper
           ''Flujo de trabajo inicializado'')"

definition getStatusForStep :: "int \<Rightarrow> ContractStatus" where
  "getStatusForStep stepNumber =
     (if stepNumber = 1 then StatusDraft
      else if stepNumber = 2 then StatusTechnicalReview
      else if stepNumber = 3 then StatusLegalReview
      else if stepNumber = 4 then StatusContractsReview
      else if stepNumber = 5 then StatusAdminReview
      else if stepNumber = 6 then StatusBudgetReview
      else StatusAuthorizedForPublication)"

text \<open>
  \<^verbatim>\<open>contract.AuditTrail[len(contract.AuditTrail)-1].BlockHash = h\<close>, on a trail that is
  not empty.
\<close>

definition setLastBlockHash :: "string \<Rightarrow> AuditEntry list \<Rightarrow> AuditEntry list" where
  "setLastBlockHash h trail =
     trail[length trail - 1 := (trail ! (length trail - 1))\<lparr>BlockHash := h\<rparr>]"

text \<open>
  \<^verbatim>\<open>ValidateStep\<close>. The contract is changed in place before the block is added, so the
  ledger returned with an error of \<^verbatim>\<open>AddBlock\<close> holds the changed contract. With
  \<open>stepNumber = CurrentStep \<le> 0\<close> the read \<^verbatim>\<open>contract.ValidationSteps[stepNumber-1]\<close>
  panics, before any write.
\<close>

definition validationBlockData ::
  "Env \<Rightarrow> string \<Rightarrow> int \<Rightarrow> string \<Rightarrow> AdminRole \<Rightarrow> bool \<Rightarrow> string \<Rightarrow> gmap" where
  "validationBlockData env contractID stepNumber validatorID role approved comments =
     [''type'' \<mapsto> VString ''VALIDATION'',
      ''contract_id'' \<mapsto> VString contractID,
      ''step'' \<mapsto> VInt stepNumber,
      ''validator'' \<mapsto> VString validatorID,
      ''role'' \<mapsto> VString role,
      ''approved'' \<mapsto> VBool approved,
      ''comments'' \<mapsto> VString comments,
      ''timestamp'' \<mapsto> VTime (payloadTime env)]"

definition ValidateStep ::
  "digest \<Rightarrow> Env \<Rightarrow> Blockchain \<Rightarrow> string \<Rightarrow> int \<Rightarrow> string \<Rightarrow> string \<Rightarrow> AdminRole \<Rightarrow> bool \<Rightarrow> string
     \<Rightarrow> (error + unit) \<times> Blockchain" where
  "ValidateStep D env bc contractID stepNumber validatorID validatorName role approved comments =
     (case Contracts bc contractID of
        None \<Rightarrow> (Inl ContractNotFound, bc)
      | Some contract \<Rightarrow>
          if stepNumber \<noteq> CurrentStep contract then
            (Inl (StepMismatch (CurrentStep contract) stepNumber), bc)
          else if stepNumber > int (length (ValidationSteps contract)) then
            (Inl StepOutOfRange, bc)
          else if stepNumber - 1 < 0 then (Inl Panic, bc)
          else
            (let i = nat (stepNumber - 1);
                 step = (ValidationSteps contract ! i)
                          \<lparr>ValidatorID := validatorID, ValidatorName := validatorName,
                           StepTimestamp := stepTime env, Comments := comments\<rparr>;
                 contract1 =
                   (if approved then
                      (let c1 = contract\<lparr>ValidationSteps :=
                                  (ValidationSteps contract)[i := step\<lparr>StepStatus := ValidationApproved\<rparr>]\<rparr>;
                           c2 = c1\<lparr>CurrentStep := CurrentStep c1 + 1\<rparr>;
                           c3 = c2\<lparr>Status := getStatusForStep (CurrentStep c2)\<rparr>
                       in addAuditEntry env c3 ''STEP_APPROVED'' validatorID role
                            (''Paso '' @ fmt_d stepNumber @ '' aprobado: '' @ comments))
                    else
                      (let c1 = contract\<lparr>ValidationSteps :=
                                  (ValidationSteps contract)[i := step\<lparr>StepStatus := ValidationRejected\<rparr>]\<rparr>;
                           c2 = c1\<lparr>Status := StatusRejected\<rparr>
                       in addAuditEntry env c2 ''STEP_REJECTED'' validatorID role
                            (''Paso '' @ fmt_d stepNumber @ '' rechazado: '' @ comments)));
                 contract2 = contract1\<lparr>UpdatedAt := updatedTime env\<rparr>;
                 bc1 = bc\<lparr>Contracts := (Contracts bc)(contractID \<mapsto> contract2)\<rparr>;
                 blockData = validationBlockData env contractID stepNumber validatorID role
                               approved comments
             in case AddBlock D (blockTime env) bc1 blockData of
                  (Inl err, bc2) \<Rightarrow> (Inl err, bc2)
                | (Inr block, bc2) \<Rightarrow>
                    (Inr (),
                     if length (AuditTrail contract2) > 0 then
                       bc2\<lparr>Contracts := (Contracts bc2)(contractID \<mapsto>
                             contract2\<lparr>AuditTrail :=
                               setLastBlockHash (Hash block) (AuditTrail contract2)\<rparr>)\<rparr>
                     else bc2)))"

definition auditBlockData :: "Env \<Rightarrow> string \<Rightarrow> string \<Rightarrow> AdminRole \<Rightarrow> string \<Rightarrow> gmap" where
  "auditBlockData env contractID auditorID role observation =
     [''type'' \<mapsto> VString ''AUDIT_OBSERVATION'',
      ''contract_id'' \<mapsto> VString contractID,
      ''auditor'' \<mapsto> VString auditorID,
      ''role'' \<mapsto> VString role,
      ''observation'' \<mapsto> VString observation,
      ''timestamp'' \<mapsto> VTime (payloadTime env)]"

definition AddAuditObservation ::
  "digest \<Rightarrow> Env \<Rightarrow> Blockchain \<Rightarrow> string \<Rightarrow> string \<Rightarrow> AdminRole \<Rightarrow> string
     \<Rightarrow> (error + unit) \<times> Blockchain" where
  "AddAuditObservation D env bc contractID auditorID role observation =
     (case Contracts bc contractID of
        None \<Rightarrow> (Inl ContractNotFound, bc)
      | Some contract \<Rightarrow>
          if role \<noteq> RoleComptroller \<and> role \<noteq> RoleProsecutor \<and> role \<noteq> RoleCitizen then
            (Inl RoleNotAuthorized, bc)
          else
            (let auditEntry = \<lparr>AuditID = auditID env, Action = ''AUDIT_OBSERVATION'',
                                UserID = auditorID, UserRole = role,
                                AuditTimestamp = auditTime env, AuditDescription = observation,
                                IPAddress = '''', BlockHash = ''''\<rparr>;
                 contract1 = contract\<lparr>AuditTrail := AuditTrail contract @ [auditEntry]\<rparr>;
                 bc1 = bc\<lparr>Contracts := (Contracts bc)(contractID \<mapsto> contract1)\<rparr>;
                 blockData = auditBlockData env contractID auditorID role observation
             in case AddBlock D (blockTime env) bc1 blockData of
                  (Inl err, bc2) \<Rightarrow> (Inl err, bc2)
                | (Inr block, bc2) \<Rightarrow>
                    (Inr (),
                     bc2\<lparr>Contracts := (Contracts bc2)(contractID \<mapsto>
                           contract1\<lparr>AuditTrail :=
                             setLastBlockHash (Hash block) (AuditTrail contract1)\<rparr>)\<rparr>)))"

text \<open>
  \<^verbatim>\<open>GetContractWorkflowStatus\<close>: the report on a contract. \<^verbatim>\<open>getNextRole\<close> reads
  \<^verbatim>\<open>ValidationSteps[CurrentStep-1]\<close> when \<open>CurrentStep\<close> is at most the number of steps:
  a panic for a step below 1.
\<close>

record WorkflowStatus =
  wfContractID :: string
  wfCurrentStep :: int
  wfTotalSteps :: int
  wfCompletedSteps :: int
  wfStatus :: ContractStatus
  CanAdvance :: bool
  NextRole :: AdminRole

definition getNextRole :: "Contract \<Rightarrow> AdminRole option" where
  "getNextRole contract =
     (if CurrentStep contract \<le> int (length (ValidationSteps contract)) then
        (if CurrentStep contract - 1 < 0 then None
         else Some (Role (ValidationSteps contract ! nat (CurrentStep contract - 1))))
      else Some '''')"

definition GetContractWorkflowStatus :: "Blockchain \<Rightarrow> string \<Rightarrow> error + WorkflowStatus" where
  "GetContractWorkflowStatus bc contractID =
     (case Contracts bc contractID of
        None \<Rightarrow> Inl ContractNotFound
      | Some contract \<Rightarrow>
          (case getNextRole contract of
             None \<Rightarrow> Inl Panic
           | Some nextRole \<Rightarrow>
               Inr \<lparr>wfContractID = contractID,
                    wfCurrentStep = CurrentStep contract,
                    wfTotalSteps = int (length (ValidationSteps contract)),
                    wfCompletedSteps =
                      int (length (filter (\<lambda>step. StepStatus step = ValidationApproved)
                                     (ValidationSteps contract))),
                    wfStatus = Status contract,
                    CanAdvance = (Status contract \<noteq> StatusRejected
                                  \<and> Status contract \<noteq> StatusCompleted),
                    NextRole = nextRole\<rparr>))"

section \<open>Replication (blockchain.go, P2PNetwork)\<close>

record Peer =
  PeerID :: string
  Address :: string
  Port :: string
  LastSeen :: Time
  Active :: bool

text \<open>
  \<^verbatim>\<open>ReceiveBlock\<close> works on the ledger of the network; the payload it hands to
  \<^verbatim>\<open>AddBlock\<close> wraps the received block's fields under five keys.
\<close>

definition receivedBlockData :: "Block \<Rightarrow> gmap" where
  "receivedBlockData block =
     [''type'' \<mapsto> VString (Type block),
      ''data'' \<mapsto> VMap (Data block),
      ''timestamp'' \<mapsto> VTime (Timestamp block),
      ''previous_hash'' \<mapsto> VString (PreviousHash block),
      ''nonce'' \<mapsto> VInt (Nonce block)]"

definition ReceiveBlock ::
  "digest \<Rightarrow> Time \<Rightarrow> Blockchain \<Rightarrow> Block \<Rightarrow> (error + unit) \<times> Blockchain" where
  "ReceiveBlock D now bc block =
     (if \<not> IsValidBlock D bc block then (Inl InvalidBlockReceived, bc)
      else if HasBlock bc (Hash block) then (Inr (), bc)
      else
        (case AddBlock D now bc (receivedBlockData block) of
           (Inl err, bc') \<Rightarrow> (Inl (AddBlockFailed err), bc')
         | (Inr added, bc') \<Rightarrow> (Inr (), bc')))"

text \<open>
  \<^verbatim>\<open>rebuildContractsFromChain\<close> decodes \<^verbatim>\<open>fmt.Sprintf("%v", block.Data)\<close> with
  \<^verbatim>\<open>json.Unmarshal\<close>. For a map, \<^verbatim>\<open>%v\<close> prints \<^verbatim>\<open>map[\<close>, the entries as
  \<^verbatim>\<open>key:value\<close> in key order, and \<^verbatim>\<open>]\<close>; the rendering of the entries is the
  parameter \<open>entries\<close>. \<^verbatim>\<open>json.Unmarshal\<close> first scans its input, and the scanner
  refuses an input whose first byte after white space does not begin a JSON value; what the
  decoder does with any other input is the parameter \<open>decode\<close>.
\<close>

definition fmt_Sprintf_v :: "(gmap \<Rightarrow> string) \<Rightarrow> gmap \<Rightarrow> string" where
  "fmt_Sprintf_v entries m = ''map['' @ entries m @ '']''"

definition isSpace :: "char \<Rightarrow> bool" where
  "isSpace c = (c = CHR '' '' \<or> c = CHR 0x09 \<or> c = CHR 0x0D \<or> c = CHR 0x0A)"

definition beginsValue :: "char \<Rightarrow> bool" where
  "beginsValue c = (c \<in> set ''{[-0123456789tfn'' \<or> c = CHR 0x22)"

definition json_Unmarshal :: "(string \<Rightarrow> Contract option) \<Rightarrow> string \<Rightarrow> Contract option" where
  "json_Unmarshal decode s =
     (case dropWhile isSpace s of
        [] \<Rightarrow> None
      | c # rest \<Rightarrow> if beginsValue c then decode s else None)"

fun rebuild_loop ::
  "(gmap \<Rightarrow> string) \<Rightarrow> (string \<Rightarrow> Contract option) \<Rightarrow> Block list
     \<Rightarrow> (string \<Rightarrow> Contract option) \<Rightarrow> (string \<Rightarrow> Contract option)" where
  "rebuild_loop entries decode [] contracts = contracts"
| "rebuild_loop entries decode (block # rest) contracts =
     (if Type block = ''CONTRACT_CREATION'' then
        (case json_Unmarshal decode (fmt_Sprintf_v entries (Data block)) of
           Some contract \<Rightarrow>
             rebuild_loop entries decode rest (contracts(ID contract \<mapsto> contract))
         | None \<Rightarrow> rebuild_loop entries decode rest contracts)
      else rebuild_loop entries decode rest contracts)"

definition rebuildContractsFromChain ::
  "(gmap \<Rightarrow> string) \<Rightarrow> (string \<Rightarrow> Contract option) \<Rightarrow> Blockchain \<Rightarrow> Blockchain" where
  "rebuildContractsFromChain entries decode bc =
     bc\<lparr>Contracts := rebuild_loop entries decode (Chain bc) Map.empty\<rparr>"

text \<open>
  \<^verbatim>\<open>SyncWithPeers\<close> visits the peers in the order the range over the map gives; each
  visit is the peer and what \<^verbatim>\<open>requestChainFromPeer\<close> returned for it (\<open>None\<close> for an
  error). It always returns nil.
\<close>

fun SyncWithPeers_loop ::
  "(gmap \<Rightarrow> string) \<Rightarrow> (string \<Rightarrow> Contract option) \<Rightarrow> (Peer \<times> Block list option) list
     \<Rightarrow> Blockchain \<Rightarrow> Blockchain" where
  "SyncWithPeers_loop entries decode [] bc = bc"
| "SyncWithPeers_loop entries decode ((peer, response) # rest) bc =
     (if \<not> Active peer then SyncWithPeers_loop entries decode rest bc
      else
        (case response of
           None \<Rightarrow> SyncWithPeers_loop entries decode rest bc
         | Some chain \<Rightarrow>
             if length chain > length (Chain bc) \<and> IsValidChain chain then
               SyncWithPeers_loop entries decode rest
                 (rebuildContractsFromChain entries decode (bc\<lparr>Chain := chain\<rparr>))
             else SyncWithPeers_loop entries decode rest bc))"

definition SyncWithPeers ::
  "(gmap \<Rightarrow> string) \<Rightarrow> (string \<Rightarrow> Contract option) \<Rightarrow> (Peer \<times> Block list option) list
     \<Rightarrow> Blockchain \<Rightarrow> (error + unit) \<times> Blockchain" where
  "SyncWithPeers entries decode visits bc = (Inr (), SyncWithPeers_loop entries decode visits bc)"

section \<open>Invariants, reachable ledgers and example data\<close>

text \<open>
  A digest to evaluate examples with: every byte is the low byte of the sum of the
  record's index and timestamp. The theorems are proved for every digest; the examples
  are evaluated with this one.
\<close>

definition demo_digest :: digest where
  "demo_digest m i =
     (case m ''index'' of
        Some (VInt n) \<Rightarrow>
          (case m ''timestamp'' of Some (VInt t) \<Rightarrow> word_of_int (n + t) | _ \<Rightarrow> 0)
      | _ \<Rightarrow> 0)"

text \<open>
  The four invariants of the ledger, as the specification words them: the first block has
  an empty previous hash; every later block's previous hash is the hash of the block before
  it; the block at position \<open>i\<close> has index \<open>i\<close>; every stored hash is the recomputed one.
\<close>

definition inv_genesis :: "Block list \<Rightarrow> bool" where
  "inv_genesis chain = (chain \<noteq> [] \<and> PreviousHash (chain ! 0) = '''')"

definition inv_linked :: "Block list \<Rightarrow> bool" where
  "inv_linked chain =
     (\<forall>i < length chain. 0 < i \<longrightarrow> PreviousHash (chain ! i) = Hash (chain ! (i - 1)))"

definition inv_index :: "Block list \<Rightarrow> bool" where
  "inv_index chain = (\<forall>i < length chain. Index (chain ! i) = int i)"

definition inv_hash :: "digest \<Rightarrow> Block list \<Rightarrow> bool" where
  "inv_hash D chain = (\<forall>i < length chain. Hash (chain ! i) = calculateHash D (chain ! i))"

definition ledger_inv :: "digest \<Rightarrow> Block list \<Rightarrow> bool" where
  "ledger_inv D chain =
     (inv_genesis chain \<and> inv_linked chain \<and> inv_index chain \<and> inv_hash D chain)"

text \<open>
  The ledgers reachable from the genesis ledger by successful \<^verbatim>\<open>AddBlock\<close> and
  \<^verbatim>\<open>ReplaceChain\<close> calls; \<open>admitted\<close> says which candidate chains
  \<^verbatim>\<open>ReplaceChain\<close> is called with (\<open>any_chain\<close>: all of them).
\<close>

definition any_chain :: "Block list \<Rightarrow> bool" where
  "any_chain chain = True"

inductive reachable :: "digest \<Rightarrow> (Block list \<Rightarrow> bool) \<Rightarrow> Blockchain \<Rightarrow> bool"
  for D :: digest and admitted :: "Block list \<Rightarrow> bool" where
  genesis: "reachable D admitted (NewBlockchain D now)"
| append: "reachable D admitted bc \<Longrightarrow> AddBlock D now bc payload = (Inr block, bc')
           \<Longrightarrow> reachable D admitted bc'"
| replace: "reachable D admitted bc \<Longrightarrow> admitted candidate
           \<Longrightarrow> ReplaceChain bc candidate = (Inr (), bc') \<Longrightarrow> reachable D admitted bc'"

text \<open>
  Example data: a fresh ledger; a chain a peer may send, linked and with hashes that are
  not empty, but with a first block that names a previous hash, indices that are not the
  positions and hashes that are not the recomputed ones; a chain whose second block does
  not link to the first; a payload.
\<close>

definition example_ledger :: Blockchain where
  "example_ledger = NewBlockchain demo_digest 1700000000000000000"

definition example_peer_chain :: "Block list" where
  "example_peer_chain =
     [\<lparr>Index = 7, Timestamp = 0, Data = Map.empty, PreviousHash = ''feed'', Hash = ''aa'',
       Nonce = 0, Type = ''''\<rparr>,
      \<lparr>Index = 7, Timestamp = 0, Data = Map.empty, PreviousHash = ''aa'', Hash = ''bb'',
       Nonce = 0, Type = ''''\<rparr>]"

definition example_broken_chain :: "Block list" where
  "example_broken_chain =
     [\<lparr>Index = 0, Timestamp = 0, Data = Map.empty, PreviousHash = '''', Hash = ''aa'',
       Nonce = 0, Type = ''''\<rparr>,
      \<lparr>Index = 1, Timestamp = 0, Data = Map.empty, PreviousHash = ''cc'', Hash = ''bb'',
       Nonce = 0, Type = ''''\<rparr>]"

definition example_payload :: gmap where
  "example_payload = [''type'' \<mapsto> VString ''NOTE'', ''text'' \<mapsto> VString ''hello'']"

text \<open>
  A contract as \<^verbatim>\<open>AddContract\<close> stores it (amount 1000, six pending steps, step 1
  current, status DRAFT), in a fresh ledger; the readings of the clock and of the
  identifier generator for one call.
\<close>

definition example_env :: Env where
  "example_env =
     \<lparr>stepTime = 1700000001000000000, auditID = ''audit-1'',
      auditTime = 1700000001000000001, updatedTime = 1700000001000000002,
      payloadTime = 1700000001000000003, blockTime = 1700000001000000004\<rparr>"

definition example_contract :: Contract where
  "example_contract =
     InitializeContractWorkflow example_env
       \<lparr>ID = ''c-1'', EntityCode = ''E-01'', EntityName = ''Alcaldia'', ContractType = ''OBRA'',
        Description = ''Via'', Amount = 0x408F400000000000, Status = StatusDraft,
        CreatedBy = ''user-1'', CreatedAt = 1700000000000000000,
        UpdatedAt = 1700000000000000000, ValidationSteps = [], CurrentStep = 0,
        RequiredRoles = [], AuditTrail = []\<rparr>"

definition example_workflow_ledger :: Blockchain where
  "example_workflow_ledger = example_ledger\<lparr>Contracts := [''c-1'' \<mapsto> example_contract]\<rparr>"

text \<open>The fields of a contract the workflow decides on: status, current step, steps.\<close>

definition statusFields :: "Contract \<Rightarrow> ContractStatus \<times> int \<times> ValidationStep list" where
  "statusFields c = (Status c, CurrentStep c, ValidationSteps c)"

definition example_rejected_ledger :: Blockchain where
  "example_rejected_ledger =
     snd (ValidateStep demo_digest example_env example_workflow_ledger ''c-1'' 1 ''v-1'' ''Luis''
            RoleProjectDeveloper False ''no'')"

text \<open>
  Blocks a peer may send to the example ledger: one that carries the hash of the genesis
  block and does not link to it; one built on the genesis block, with its own hash. A peer,
  and the chain it answers with: its second block records the creation of a contract.
\<close>

definition example_forged_block :: Block where
  "example_forged_block =
     \<lparr>Index = 1, Timestamp = 1700000002000000000, Data = example_payload,
      PreviousHash = ''feed'', Hash = Hash (genesisBlock demo_digest 1700000000000000000),
      Nonce = 0, Type = ''NOTE''\<rparr>"

definition example_received_block :: Block where
  "example_received_block =
     (let b = \<lparr>Index = 1, Timestamp = 1700000002000000000, Data = example_payload,
               PreviousHash = Hash (genesisBlock demo_digest 1700000000000000000),
               Hash = '''', Nonce = 0, Type = ''NOTE''\<rparr>
      in b\<lparr>Hash := calculateHash demo_digest b\<rparr>)"

definition example_peer :: Peer where
  "example_peer =
     \<lparr>PeerID = ''node-2'', Address = ''10.0.0.2'', Port = ''8080'',
      LastSeen = 1700000003000000000, Active = True\<rparr>"

definition example_creation_chain :: "Block list" where
  "example_creation_chain =
     [\<lparr>Index = 0, Timestamp = 0, Data = Map.empty, PreviousHash = '''', Hash = ''aa'',
       Nonce = 0, Type = ''''\<rparr>,
      \<lparr>Index = 1, Timestamp = 0,
       Data = [''type'' \<mapsto> VString ''CONTRACT_CREATION'', ''contract_id'' \<mapsto> VString ''c-1'',
               ''entity_code'' \<mapsto> VString ''E-01'', ''entity_name'' \<mapsto> VString ''Alcaldia'',
               ''amount'' \<mapsto> VFloat64 0x408F400000000000, ''created_by'' \<mapsto> VString ''user-1'',
               ''timestamp'' \<mapsto> VString ''2023-11-14T17:13:20-05:00''],
       PreviousHash = ''aa'', Hash = ''bb'', Nonce = 0, Type = ''CONTRACT_CREATION''\<rparr>]"

text \<open>A block a peer may send that claims index 0, with its own hash.\<close>

definition example_unlinked_block :: Block where
  "example_unlinked_block =
     (let b = \<lparr>Index = 0, Timestamp = 1700000002000000000, Data = example_payload,
               PreviousHash = '''', Hash = '''', Nonce = 0, Type = ''NOTE''\<rparr>
      in b\<lparr>Hash := calculateHash demo_digest b\<rparr>)"

section \<open>Properties\<close>

subsection \<open>Hashes and AddBlock\<close>

lemma length_hex_EncodeToString: "length (hex_EncodeToString bs) = 2 * length bs"
  by (induction bs) (simp_all add: hex_EncodeToString_def)

lemma calculateHash_nonempty: "calculateHash D b \<noteq> ''''"
proof
  assume "calculateHash D b = ''''"
  then have "length (calculateHash D b) = 0" by simp
  then show False
    by (simp add: calculateHash_def length_hex_EncodeToString)
qed

lemma calculateHash_Hash_update: "calculateHash D (b\<lparr>Hash := h\<rparr>) = calculateHash D b"
  by (simp add: calculateHash_def hash_record_def)

lemma AddBlock_empty: "Chain bc = [] \<Longrightarrow> AddBlock D now bc payload = (Inl Panic, bc)"
  by (simp add: AddBlock_def getLatestBlock_def)

lemma AddBlock_ok:
  assumes "Chain bc \<noteq> []"
  shows "\<exists>block. AddBlock D now bc payload = (Inr block, bc\<lparr>Chain := Chain bc @ [block]\<rparr>)
           \<and> Index block = int (length (Chain bc))
           \<and> Timestamp block = now
           \<and> Data block = payload
           \<and> PreviousHash block = Hash (last (Chain bc))
           \<and> Nonce block = 0
           \<and> Type block = (case payload ''type'' of Some (VString t) \<Rightarrow> t | _ \<Rightarrow> '''')
           \<and> Hash block = calculateHash D block"
  using assms
  by (simp add: AddBlock_def getLatestBlock_def NewBlock_def IsValidBlock_def Let_def
        calculateHash_nonempty calculateHash_Hash_update
      split: option.split gvalue.split)

subsection \<open>Chain validation and the invariants\<close>

lemma inv_linked_Nil: "inv_linked []"
  by (simp add: inv_linked_def)

lemma inv_linked_D:
  "inv_linked chain \<Longrightarrow> i < length chain \<Longrightarrow> 0 < i \<Longrightarrow> PreviousHash (chain ! i) = Hash (chain ! (i - 1))"
  by (simp add: inv_linked_def)

lemma inv_linked_Cons:
  "inv_linked (b # bs) \<longleftrightarrow> (bs \<noteq> [] \<longrightarrow> PreviousHash (hd bs) = Hash b) \<and> inv_linked bs"
proof
  assume L: "inv_linked (b # bs)"
  have head: "PreviousHash (hd bs) = Hash b" if "bs \<noteq> []"
  proof -
    from that have "Suc 0 < length (b # bs)" by (cases bs) simp_all
    from inv_linked_D [OF L this] that show ?thesis by (simp add: hd_conv_nth)
  qed
  have tail: "inv_linked bs"
    unfolding inv_linked_def
  proof (intro allI impI)
    fix i assume i: "i < length bs" "0 < i"
    then have "Suc i < length (b # bs)" by simp
    from inv_linked_D [OF L this] i show "PreviousHash (bs ! i) = Hash (bs ! (i - 1))"
      by (simp add: nth_Cons')
  qed
  from head tail show "(bs \<noteq> [] \<longrightarrow> PreviousHash (hd bs) = Hash b) \<and> inv_linked bs"
    by simp
next
  assume R: "(bs \<noteq> [] \<longrightarrow> PreviousHash (hd bs) = Hash b) \<and> inv_linked bs"
  show "inv_linked (b # bs)"
    unfolding inv_linked_def
  proof (intro allI impI)
    fix i assume i: "i < length (b # bs)" "0 < i"
    then obtain j where j: "i = Suc j" "j < length bs" by (cases i) simp_all
    show "PreviousHash ((b # bs) ! i) = Hash ((b # bs) ! (i - 1))"
    proof (cases j)
      case 0
      with j R show ?thesis by (cases bs) simp_all
    next
      case (Suc k)
      from R have "inv_linked bs" by simp
      from inv_linked_D [OF this j(2)] Suc have "PreviousHash (bs ! j) = Hash (bs ! (j - 1))"
        by simp
      with j Suc show ?thesis by simp
    qed
  qed
qed

lemma IsValidChain_loop_iff:
  "IsValidChain_loop prev chain \<longleftrightarrow>
     (\<forall>b \<in> set chain. Hash b \<noteq> '''') \<and> inv_linked chain
     \<and> (case prev of None \<Rightarrow> True | Some p \<Rightarrow> chain \<noteq> [] \<longrightarrow> PreviousHash (hd chain) = Hash p)"
proof (induction chain arbitrary: prev)
  case Nil
  then show ?case by (simp add: inv_linked_Nil split: option.split)
next
  case (Cons b bs)
  show ?case
    by (auto simp: Cons.IH inv_linked_Cons split: option.split)
qed

lemma IsValidChain_iff:
  "IsValidChain chain \<longleftrightarrow> chain \<noteq> [] \<and> (\<forall>b \<in> set chain. Hash b \<noteq> '''') \<and> inv_linked chain"
  by (simp add: IsValidChain_def IsValidChain_loop_iff)

lemma inv_linked_snoc:
  "inv_linked (chain @ [b]) \<longleftrightarrow> inv_linked chain \<and> (chain \<noteq> [] \<longrightarrow> PreviousHash b = Hash (last chain))"
  by (induction chain) (auto simp: inv_linked_Cons inv_linked_Nil)

lemma inv_index_snoc:
  "inv_index (chain @ [b]) \<longleftrightarrow> inv_index chain \<and> Index b = int (length chain)"
  by (auto simp: inv_index_def nth_append less_Suc_eq)

lemma inv_hash_snoc:
  "inv_hash D (chain @ [b]) \<longleftrightarrow> inv_hash D chain \<and> Hash b = calculateHash D b"
  by (auto simp: inv_hash_def nth_append less_Suc_eq)

lemma inv_genesis_snoc: "chain \<noteq> [] \<Longrightarrow> inv_genesis (chain @ [b]) \<longleftrightarrow> inv_genesis chain"
  by (cases chain) (simp_all add: inv_genesis_def)

lemma genesisBlock_fields:
  "Index (genesisBlock D now) = 0"
  "PreviousHash (genesisBlock D now) = []"
  "Hash (genesisBlock D now) = calculateHash D (genesisBlock D now)"
  by (simp_all add: genesisBlock_def Let_def calculateHash_def hash_record_def)

lemma ledger_inv_genesis: "ledger_inv D (Chain (NewBlockchain D now))"
  by (simp add: ledger_inv_def inv_genesis_def inv_linked_def inv_index_def inv_hash_def
      NewBlockchain_def genesisBlock_fields)

lemma ledger_inv_nonempty: "ledger_inv D chain \<Longrightarrow> chain \<noteq> []"
  by (simp add: ledger_inv_def inv_genesis_def)

lemma AddBlock_preserves_ledger_inv:
  assumes "ledger_inv D (Chain bc)" and "AddBlock D now bc payload = (Inr block, bc')"
  shows "ledger_inv D (Chain bc')"
proof -
  from assms(1) have ne: "Chain bc \<noteq> []" by (rule ledger_inv_nonempty)
  from AddBlock_ok [OF ne, of D now payload] assms(2)
  have "Chain bc' = Chain bc @ [block]" "Index block = int (length (Chain bc))"
    "PreviousHash block = Hash (last (Chain bc))" "Hash block = calculateHash D block"
    by auto
  with assms(1) ne show ?thesis
    by (simp add: ledger_inv_def inv_genesis_snoc inv_linked_snoc inv_index_snoc inv_hash_snoc)
qed

lemma ReplaceChain_ok_iff:
  "ReplaceChain bc candidate = (Inr (), bc') \<longleftrightarrow>
     length (Chain bc) < length candidate \<and> IsValidChain candidate \<and> bc' = bc\<lparr>Chain := candidate\<rparr>"
  by (auto simp: ReplaceChain_def)

lemma reachable_linked:
  "reachable D admitted bc \<Longrightarrow>
     Chain bc \<noteq> [] \<and> inv_linked (Chain bc) \<and> (\<forall>b \<in> set (Chain bc). Hash b \<noteq> '''')"
proof (induction rule: reachable.induct)
  case (genesis now)
  then show ?case
    by (simp add: NewBlockchain_def genesisBlock_fields inv_linked_def calculateHash_nonempty)
next
  case (append bc now payload block bc')
  from append.IH have ne: "Chain bc \<noteq> []" by simp
  from AddBlock_ok [OF ne, of D now payload] append.hyps(2)
  have "Chain bc' = Chain bc @ [block]" "PreviousHash block = Hash (last (Chain bc))"
    "Hash block = calculateHash D block"
    by auto
  with append.IH show ?case
    by (simp add: inv_linked_snoc calculateHash_nonempty)
next
  case (replace bc candidate bc')
  then show ?case
    by (simp add: ReplaceChain_ok_iff IsValidChain_iff)
qed

lemma reachable_ledger_inv:
  "reachable D (ledger_inv D) bc \<Longrightarrow> ledger_inv D (Chain bc)"
proof (induction rule: reachable.induct)
  case (genesis now)
  show ?case by (rule ledger_inv_genesis)
next
  case (append bc now payload block bc')
  then show ?case by (blast intro: AddBlock_preserves_ledger_inv)
next
  case (replace bc candidate bc')
  then show ?case by (simp add: ReplaceChain_ok_iff)
qed

text \<open>
  C1 (as amended). In every ledger reachable from the genesis ledger by successful
  \<^verbatim>\<open>AddBlock\<close> and \<^verbatim>\<open>ReplaceChain\<close> calls the chain is not empty, every block after
  the first names the hash of the block before it, and no hash is empty. The four
  invariants hold in every ledger reached with \<^verbatim>\<open>ReplaceChain\<close> called on chains that
  satisfy them, and so in every ledger reached by \<^verbatim>\<open>AddBlock\<close> alone:
  \<^verbatim>\<open>ReplaceChain\<close> checks the links and that the hashes are not empty, nothing else.
\<close>

theorem reachable_invariants:
  "(reachable D any_chain bc \<longrightarrow>
      Chain bc \<noteq> [] \<and> inv_linked (Chain bc) \<and> (\<forall>b \<in> set (Chain bc). Hash b \<noteq> ''''))
   \<and> (reachable D (ledger_inv D) bc \<longrightarrow> ledger_inv D (Chain bc))"
  using reachable_linked [of D any_chain bc] reachable_ledger_inv [of D bc] by blast

lemma example_peer_chain_adopted:
  "ReplaceChain (NewBlockchain D now) example_peer_chain
     = (Inr (), (NewBlockchain D now)\<lparr>Chain := example_peer_chain\<rparr>)"
  by (simp add: ReplaceChain_def NewBlockchain_def example_peer_chain_def IsValidChain_def)

lemma example_replaced_reachable:
  "reachable demo_digest any_chain (example_ledger\<lparr>Chain := example_peer_chain\<rparr>)"
  unfolding example_ledger_def
  by (rule reachable.replace [OF reachable.genesis _ example_peer_chain_adopted])
    (simp add: any_chain_def)

text \<open>
  C1 as stated fails: from the genesis ledger, \<^verbatim>\<open>ReplaceChain\<close> adopts the example peer
  chain, whose first block has a previous hash, whose indices are 7 and 7 and whose hashes
  are not the recomputed ones.
\<close>

theorem reachable_invariants_counterexample:
  "reachable demo_digest any_chain (example_ledger\<lparr>Chain := example_peer_chain\<rparr>)
   \<and> \<not> inv_genesis (Chain (example_ledger\<lparr>Chain := example_peer_chain\<rparr>))
   \<and> \<not> inv_index (Chain (example_ledger\<lparr>Chain := example_peer_chain\<rparr>))
   \<and> \<not> inv_hash demo_digest (Chain (example_ledger\<lparr>Chain := example_peer_chain\<rparr>))
   \<and> \<not> ledger_inv demo_digest (Chain (example_ledger\<lparr>Chain := example_peer_chain\<rparr>))"
proof -
  have r: "reachable demo_digest any_chain (example_ledger\<lparr>Chain := example_peer_chain\<rparr>)"
    by (rule example_replaced_reachable)
  have g: "\<not> inv_genesis example_peer_chain"
    by (simp add: inv_genesis_def example_peer_chain_def)
  have i: "\<not> inv_index example_peer_chain"
    by (auto simp: inv_index_def example_peer_chain_def intro: exI [of _ 0])
  have "length (Hash (example_peer_chain ! 0))
          \<noteq> length (calculateHash demo_digest (example_peer_chain ! 0))"
    by (simp add: calculateHash_def length_hex_EncodeToString example_peer_chain_def)
  then have "Hash (example_peer_chain ! 0) \<noteq> calculateHash demo_digest (example_peer_chain ! 0)"
    by auto
  then have h: "\<not> inv_hash demo_digest example_peer_chain"
    by (auto simp: inv_hash_def example_peer_chain_def intro: exI [of _ 0])
  from r g i h show ?thesis by (simp add: ledger_inv_def)
qed

lemma example_appended_reachable:
  "reachable demo_digest (ledger_inv demo_digest)
     (snd (AddBlock demo_digest 5 example_ledger example_payload))"
proof -
  have ne: "Chain example_ledger \<noteq> []"
    by (simp add: example_ledger_def NewBlockchain_def)
  from AddBlock_ok [OF ne, of demo_digest 5 example_payload]
  obtain block where
    "AddBlock demo_digest 5 example_ledger example_payload
       = (Inr block, snd (AddBlock demo_digest 5 example_ledger example_payload))"
    by auto
  moreover have "reachable demo_digest (ledger_inv demo_digest) example_ledger"
    unfolding example_ledger_def by (rule reachable.genesis)
  ultimately show ?thesis by (rule reachable.append [rotated])
qed

text \<open>
  The amended C1 at the ledger that adopted the example peer chain, and at the example
  ledger after one \<^verbatim>\<open>AddBlock\<close>.
\<close>

theorem reachable_invariants_witness:
  "reachable demo_digest any_chain (example_ledger\<lparr>Chain := example_peer_chain\<rparr>)
   \<and> inv_linked (Chain (example_ledger\<lparr>Chain := example_peer_chain\<rparr>))
   \<and> reachable demo_digest (ledger_inv demo_digest)
        (snd (AddBlock demo_digest 5 example_ledger example_payload))
   \<and> ledger_inv demo_digest (Chain (snd (AddBlock demo_digest 5 example_ledger example_payload)))"
  using reachable_invariants [of demo_digest "example_ledger\<lparr>Chain := example_peer_chain\<rparr>"]
    reachable_invariants [of demo_digest "snd (AddBlock demo_digest 5 example_ledger example_payload)"]
    example_replaced_reachable example_appended_reachable
  by blast

subsection \<open>ReplaceChain and AddBlock\<close>

text \<open>
  C5. \<^verbatim>\<open>ReplaceChain\<close> succeeds exactly when the candidate is strictly longer than the
  chain and \<^verbatim>\<open>IsValidChain\<close> holds for it; it then stores the candidate as the chain and
  changes nothing else. In every other case it returns an error (too short, or not valid)
  and the ledger is as it was.
\<close>

theorem ReplaceChain_adopts_iff:
  "(fst (ReplaceChain bc candidate) = Inr ()) =
      (length (Chain bc) < length candidate \<and> IsValidChain candidate)
   \<and> (fst (ReplaceChain bc candidate) = Inr () \<longrightarrow>
        snd (ReplaceChain bc candidate) = bc\<lparr>Chain := candidate\<rparr>)
   \<and> (fst (ReplaceChain bc candidate) \<noteq> Inr () \<longrightarrow>
        snd (ReplaceChain bc candidate) = bc
        \<and> fst (ReplaceChain bc candidate) =
            Inl (if length candidate \<le> length (Chain bc) then ChainTooShort else ChainInvalid))"
  by (simp add: ReplaceChain_def)

text \<open>
  C5 at the example ledger: the peer chain is adopted, the broken chain and the ledger's own
  chain are refused and leave the ledger as it was.
\<close>

theorem ReplaceChain_adopts_iff_witness:
  "fst (ReplaceChain example_ledger example_peer_chain) = Inr ()
   \<and> Chain (snd (ReplaceChain example_ledger example_peer_chain)) = example_peer_chain
   \<and> fst (ReplaceChain example_ledger example_broken_chain) = Inl ChainInvalid
   \<and> snd (ReplaceChain example_ledger example_broken_chain) = example_ledger
   \<and> fst (ReplaceChain example_ledger (Chain example_ledger)) = Inl ChainTooShort
   \<and> snd (ReplaceChain example_ledger (Chain example_ledger)) = example_ledger"
proof -
  have len: "length (Chain example_ledger) = 1"
    by (simp add: example_ledger_def NewBlockchain_def)
  have ok: "IsValidChain example_peer_chain"
    by (simp add: example_peer_chain_def IsValidChain_def)
  have bad: "\<not> IsValidChain example_broken_chain"
    by (simp add: example_broken_chain_def IsValidChain_def)
  have l2: "length example_peer_chain = 2" "length example_broken_chain = 2"
    by (simp_all add: example_peer_chain_def example_broken_chain_def)
  show ?thesis
    using ReplaceChain_adopts_iff [of example_ledger example_peer_chain]
      ReplaceChain_adopts_iff [of example_ledger example_broken_chain]
      ReplaceChain_adopts_iff [of example_ledger "Chain example_ledger"]
      len ok bad l2
    by simp
qed

text \<open>
  C6. \<^verbatim>\<open>AddBlock\<close> either fails and returns the ledger as it was, or appends exactly one
  block, whose index is the length of the chain before the call, whose previous hash is the
  hash of the last block before the call and whose stored hash is its recomputed hash. On a
  ledger that satisfies the invariants it does not fail.
\<close>

theorem AddBlock_all_or_nothing:
  "((\<exists>err. AddBlock D now bc payload = (Inl err, bc))
    \<or> (\<exists>block. AddBlock D now bc payload = (Inr block, bc\<lparr>Chain := Chain bc @ [block]\<rparr>)
          \<and> Index block = int (length (Chain bc))
          \<and> PreviousHash block = Hash (last (Chain bc))
          \<and> Hash block = calculateHash D block))
   \<and> (ledger_inv D (Chain bc) \<longrightarrow>
        (\<exists>block. AddBlock D now bc payload = (Inr block, bc\<lparr>Chain := Chain bc @ [block]\<rparr>)
          \<and> Index block = int (length (Chain bc))
          \<and> PreviousHash block = Hash (last (Chain bc))
          \<and> Hash block = calculateHash D block))"
proof (cases "Chain bc = []")
  case True
  then have "AddBlock D now bc payload = (Inl Panic, bc)" by (rule AddBlock_empty)
  moreover from True have "\<not> ledger_inv D (Chain bc)"
    by (auto dest: ledger_inv_nonempty)
  ultimately show ?thesis by blast
next
  case False
  from AddBlock_ok [OF False, of D now payload] show ?thesis by blast
qed

text \<open>
  C6 at the example ledger, which satisfies the invariants: the block is appended with
  index 1 and the genesis block's hash as its previous hash.
\<close>

theorem AddBlock_all_or_nothing_witness:
  "ledger_inv demo_digest (Chain example_ledger)
   \<and> (\<exists>block. AddBlock demo_digest 5 example_ledger example_payload
                 = (Inr block, example_ledger\<lparr>Chain := Chain example_ledger @ [block]\<rparr>)
          \<and> Index block = 1
          \<and> PreviousHash block = Hash (genesisBlock demo_digest 1700000000000000000)
          \<and> Hash block = calculateHash demo_digest block)"
proof -
  have inv: "ledger_inv demo_digest (Chain example_ledger)"
    unfolding example_ledger_def by (rule ledger_inv_genesis)
  have "Chain example_ledger = [genesisBlock demo_digest 1700000000000000000]"
    by (simp add: example_ledger_def NewBlockchain_def)
  with inv AddBlock_all_or_nothing [of demo_digest 5 example_ledger example_payload]
  show ?thesis by simp
qed

subsection \<open>ValidateStep\<close>

lemma ValidateStep_not_found:
  "Contracts bc cid = None \<Longrightarrow>
     ValidateStep D env bc cid n vid vname role approved comments = (Inl ContractNotFound, bc)"
  by (simp add: ValidateStep_def)

lemma ValidateStep_mismatch:
  "Contracts bc cid = Some c \<Longrightarrow> n \<noteq> CurrentStep c \<Longrightarrow>
     ValidateStep D env bc cid n vid vname role approved comments
       = (Inl (StepMismatch (CurrentStep c) n), bc)"
  by (simp add: ValidateStep_def)

lemma ValidateStep_out_of_range:
  "Contracts bc cid = Some c \<Longrightarrow> n = CurrentStep c \<Longrightarrow> int (length (ValidationSteps c)) < n \<Longrightarrow>
     ValidateStep D env bc cid n vid vname role approved comments = (Inl StepOutOfRange, bc)"
  by (simp add: ValidateStep_def)

lemma ValidateStep_panic:
  "Contracts bc cid = Some c \<Longrightarrow> n = CurrentStep c \<Longrightarrow> n \<le> int (length (ValidationSteps c))
     \<Longrightarrow> n < 1 \<Longrightarrow>
     ValidateStep D env bc cid n vid vname role approved comments = (Inl Panic, bc)"
  by (simp add: ValidateStep_def)

lemma ValidateStep_empty_chain:
  assumes "Contracts bc cid = Some c" "n = CurrentStep c" "1 \<le> n"
    "n \<le> int (length (ValidationSteps c))" "Chain bc = []"
  shows "fst (ValidateStep D env bc cid n vid vname role approved comments) = Inl Panic"
  using assms
  by (simp add: ValidateStep_def Let_def AddBlock_empty)

lemma ValidateStep_ok:
  assumes c: "Contracts bc cid = Some c" and n: "n = CurrentStep c" "1 \<le> n"
    "n \<le> int (length (ValidationSteps c))" and ne: "Chain bc \<noteq> []"
  shows "\<exists>c' block.
           ValidateStep D env bc cid n vid vname role approved comments
             = (Inr (), bc\<lparr>Chain := Chain bc @ [block], Contracts := (Contracts bc)(cid \<mapsto> c')\<rparr>)
         \<and> Status c' = (if approved then getStatusForStep (n + 1) else StatusRejected)
         \<and> CurrentStep c' = (if approved then n + 1 else n)
         \<and> ValidationSteps c' = (ValidationSteps c)
              [nat (n - 1) := (ValidationSteps c ! nat (n - 1))
                 \<lparr>ValidatorID := vid, ValidatorName := vname, StepTimestamp := stepTime env,
                  Comments := comments,
                  StepStatus := (if approved then ValidationApproved else ValidationRejected)\<rparr>]
         \<and> length (AuditTrail c') = length (AuditTrail c) + 1
         \<and> UserRole (last (AuditTrail c')) = role
         \<and> BlockHash (last (AuditTrail c')) = Hash block
         \<and> Index block = int (length (Chain bc))
         \<and> Type block = ''VALIDATION''
         \<and> Data block = validationBlockData env cid n vid role approved comments"
proof -
  define payload where "payload = validationBlockData env cid n vid role approved comments"
  have ty: "payload ''type'' = Some (VString ''VALIDATION'')"
    by (simp add: payload_def validationBlockData_def)
  show ?thesis
  proof (cases approved)
    case True
    define c2 where "c2 = (addAuditEntry env
        (c\<lparr>ValidationSteps := (ValidationSteps c)
              [nat (n - 1) := (ValidationSteps c ! nat (n - 1))
                 \<lparr>ValidatorID := vid, ValidatorName := vname, StepTimestamp := stepTime env,
                  Comments := comments, StepStatus := ValidationApproved\<rparr>],
           CurrentStep := CurrentStep c + 1,
           Status := getStatusForStep (CurrentStep c + 1)\<rparr>)
        ''STEP_APPROVED'' vid role (''Paso '' @ fmt_d n @ '' aprobado: '' @ comments))
        \<lparr>UpdatedAt := updatedTime env\<rparr>"
    define bc1 where "bc1 = bc\<lparr>Contracts := (Contracts bc)(cid \<mapsto> c2)\<rparr>"
    from ne have ne1: "Chain bc1 \<noteq> []" by (simp add: bc1_def)
    from AddBlock_ok [OF ne1, of D "blockTime env" payload] obtain block where
      b: "AddBlock D (blockTime env) bc1 payload = (Inr block, bc1\<lparr>Chain := Chain bc1 @ [block]\<rparr>)"
        "Index block = int (length (Chain bc1))" "Data block = payload"
        "Type block = (case payload ''type'' of Some (VString t) \<Rightarrow> t | _ \<Rightarrow> '''')"
      by blast
    have tr: "AuditTrail c2 \<noteq> []" by (simp add: c2_def addAuditEntry_def)
    have "ValidateStep D env bc cid n vid vname role approved comments
        = (Inr (), bc\<lparr>Chain := Chain bc @ [block], Contracts := (Contracts bc)(cid \<mapsto>
             c2\<lparr>AuditTrail := setLastBlockHash (Hash block) (AuditTrail c2)\<rparr>)\<rparr>)"
      using c n True b(1) tr
      unfolding bc1_def c2_def payload_def
      by (simp add: ValidateStep_def Let_def)
    moreover have "length (setLastBlockHash h (AuditTrail c2)) = length (AuditTrail c) + 1"
      "UserRole (last (setLastBlockHash h (AuditTrail c2))) = role"
      "BlockHash (last (setLastBlockHash h (AuditTrail c2))) = h" for h
      by (simp_all add: c2_def addAuditEntry_def setLastBlockHash_def)
    ultimately show ?thesis
      using True b(2-) ty n
      by (intro exI [of _ "c2\<lparr>AuditTrail := setLastBlockHash (Hash block) (AuditTrail c2)\<rparr>"]
          exI [of _ block])
        (simp add: c2_def addAuditEntry_def bc1_def payload_def)
  next
    case False
    define c2 where "c2 = (addAuditEntry env
        (c\<lparr>ValidationSteps := (ValidationSteps c)
              [nat (n - 1) := (ValidationSteps c ! nat (n - 1))
                 \<lparr>ValidatorID := vid, ValidatorName := vname, StepTimestamp := stepTime env,
                  Comments := comments, StepStatus := ValidationRejected\<rparr>],
           Status := StatusRejected\<rparr>)
        ''STEP_REJECTED'' vid role (''Paso '' @ fmt_d n @ '' rechazado: '' @ comments))
        \<lparr>UpdatedAt := updatedTime env\<rparr>"
    define bc1 where "bc1 = bc\<lparr>Contracts := (Contracts bc)(cid \<mapsto> c2)\<rparr>"
    from ne have ne1: "Chain bc1 \<noteq> []" by (simp add: bc1_def)
    from AddBlock_ok [OF ne1, of D "blockTime env" payload] obtain block where
      b: "AddBlock D (blockTime env) bc1 payload = (Inr block, bc1\<lparr>Chain := Chain bc1 @ [block]\<rparr>)"
        "Index block = int (length (Chain bc1))" "Data block = payload"
        "Type block = (case payload ''type'' of Some (VString t) \<Rightarrow> t | _ \<Rightarrow> '''')"
      by blast
    have tr: "AuditTrail c2 \<noteq> []" by (simp add: c2_def addAuditEntry_def)
    have "ValidateStep D env bc cid n vid vname role approved comments
        = (Inr (), bc\<lparr>Chain := Chain bc @ [block], Contracts := (Contracts bc)(cid \<mapsto>
             c2\<lparr>AuditTrail := setLastBlockHash (Hash block) (AuditTrail c2)\<rparr>)\<rparr>)"
      using c n False b(1) tr
      unfolding bc1_def c2_def payload_def
      by (simp add: ValidateStep_def Let_def)
    moreover have "length (setLastBlockHash h (AuditTrail c2)) = length (AuditTrail c) + 1"
      "UserRole (last (setLastBlockHash h (AuditTrail c2))) = role"
      "BlockHash (last (setLastBlockHash h (AuditTrail c2))) = h" for h
      by (simp_all add: c2_def addAuditEntry_def setLastBlockHash_def)
    ultimately show ?thesis
      using False b(2-) ty n
      by (intro exI [of _ "c2\<lparr>AuditTrail := setLastBlockHash (Hash block) (AuditTrail c2)\<rparr>"]
          exI [of _ block])
        (simp add: c2_def addAuditEntry_def bc1_def payload_def)
  qed
qed

lemma ValidateStep_panic_chain:
  assumes c: "Contracts bc cid = Some c" and n: "n = CurrentStep c" "1 \<le> n"
    "n \<le> int (length (ValidationSteps c))" and e: "Chain bc = []"
  shows "fst (ValidateStep D env bc cid n vid vname role approved comments) = Inl Panic
         \<and> map_option statusFields
              (Contracts (snd (ValidateStep D env bc cid n vid vname role approved comments)) k)
             = (if k = cid then
                  Some (if approved then getStatusForStep (n + 1) else StatusRejected,
                        if approved then n + 1 else n,
                        (ValidationSteps c)
                          [nat (n - 1) := (ValidationSteps c ! nat (n - 1))
                             \<lparr>ValidatorID := vid, ValidatorName := vname,
                              StepTimestamp := stepTime env, Comments := comments,
                              StepStatus := (if approved then ValidationApproved
                                             else ValidationRejected)\<rparr>])
                else map_option statusFields (Contracts bc k))"
  using c n e
  by (cases approved)
    (simp_all add: ValidateStep_def Let_def AddBlock_empty addAuditEntry_def statusFields_def)

lemma ValidateStep_ok_fields:
  assumes c: "Contracts bc cid = Some c" and n: "n = CurrentStep c" "1 \<le> n"
    "n \<le> int (length (ValidationSteps c))" and ne: "Chain bc \<noteq> []"
  shows "fst (ValidateStep D env bc cid n vid vname role approved comments) = Inr ()
         \<and> map_option statusFields
              (Contracts (snd (ValidateStep D env bc cid n vid vname role approved comments)) k)
             = (if k = cid then
                  Some (if approved then getStatusForStep (n + 1) else StatusRejected,
                        if approved then n + 1 else n,
                        (ValidationSteps c)
                          [nat (n - 1) := (ValidationSteps c ! nat (n - 1))
                             \<lparr>ValidatorID := vid, ValidatorName := vname,
                              StepTimestamp := stepTime env, Comments := comments,
                              StepStatus := (if approved then ValidationApproved
                                             else ValidationRejected)\<rparr>])
                else map_option statusFields (Contracts bc k))"
proof -
  from ValidateStep_ok [OF c n ne, of D env vid vname role approved comments]
  obtain c' block where
    "ValidateStep D env bc cid n vid vname role approved comments
       = (Inr (), bc\<lparr>Chain := Chain bc @ [block], Contracts := (Contracts bc)(cid \<mapsto> c')\<rparr>)"
    "Status c' = (if approved then getStatusForStep (n + 1) else StatusRejected)"
    "CurrentStep c' = (if approved then n + 1 else n)"
    "ValidationSteps c' = (ValidationSteps c)
              [nat (n - 1) := (ValidationSteps c ! nat (n - 1))
                 \<lparr>ValidatorID := vid, ValidatorName := vname, StepTimestamp := stepTime env,
                  Comments := comments,
                  StepStatus := (if approved then ValidationApproved else ValidationRejected)\<rparr>]"
    by blast
  then show ?thesis by (simp add: statusFields_def)
qed

lemma ValidateStep_success_iff:
  assumes "Contracts bc cid = Some c"
  shows "fst (ValidateStep D env bc cid n vid vname role approved comments) = Inr () \<longleftrightarrow>
           n = CurrentStep c \<and> 1 \<le> n \<and> n \<le> int (length (ValidationSteps c)) \<and> Chain bc \<noteq> []"
proof (cases "n = CurrentStep c")
  case False
  with assms show ?thesis by (simp add: ValidateStep_mismatch)
next
  case n: True
  show ?thesis
  proof (cases "n \<le> int (length (ValidationSteps c))")
    case False
    with assms n show ?thesis by (simp add: ValidateStep_out_of_range)
  next
    case le: True
    show ?thesis
    proof (cases "1 \<le> n")
      case False
      with assms n le show ?thesis by (simp add: ValidateStep_panic)
    next
      case ge: True
      show ?thesis
      proof (cases "Chain bc = []")
        case True
        with ValidateStep_empty_chain [OF assms n ge le True, of D env vid vname role approved comments]
        show ?thesis by simp
      next
        case False
        with ValidateStep_ok [OF assms n ge le False, of D env vid vname role approved comments]
          n ge le show ?thesis by auto
      qed
    qed
  qed
qed

lemma getStatusForStep_next:
  "1 \<le> n \<Longrightarrow> getStatusForStep (n + 1) =
     (if n = 1 then StatusTechnicalReview
      else if n = 2 then StatusLegalReview
      else if n = 3 then StatusContractsReview
      else if n = 4 then StatusAdminReview
      else if n = 5 then StatusBudgetReview
      else StatusAuthorizedForPublication)"
  by (simp add: getStatusForStep_def)

text \<open>
  C3. For a contract of the map, \<^verbatim>\<open>ValidateStep\<close> returns the step-mismatch error exactly
  when the step number is not the contract's current step, and then the ledger is as it
  was. When it succeeds with \<open>approved\<close> on step \<open>n\<close>, the contract's current step is
  \<open>n + 1\<close> and its status is the one of step \<open>n + 1\<close>: TECHNICAL_REVIEW after step 1, up to
  BUDGET_REVIEW after step 5, and AUTHORIZED_FOR_PUBLICATION after step 6 or later.
\<close>

theorem ValidateStep_sequential:
  assumes "Contracts bc cid = Some c"
  shows "((\<exists>cur req. fst (ValidateStep D env bc cid n vid vname role approved comments)
                       = Inl (StepMismatch cur req)) \<longleftrightarrow> n \<noteq> CurrentStep c)
       \<and> (n \<noteq> CurrentStep c \<longrightarrow>
            ValidateStep D env bc cid n vid vname role approved comments
              = (Inl (StepMismatch (CurrentStep c) n), bc))
       \<and> (fst (ValidateStep D env bc cid n vid vname role approved comments) = Inr () \<and> approved \<longrightarrow>
            (\<exists>c'. Contracts (snd (ValidateStep D env bc cid n vid vname role approved comments)) cid
                     = Some c'
                 \<and> CurrentStep c' = n + 1
                 \<and> Status c' = getStatusForStep (n + 1)
                 \<and> Status c' =
                     (if n = 1 then StatusTechnicalReview
                      else if n = 2 then StatusLegalReview
                      else if n = 3 then StatusContractsReview
                      else if n = 4 then StatusAdminReview
                      else if n = 5 then StatusBudgetReview
                      else StatusAuthorizedForPublication)))"
proof (intro conjI impI)
  show "(\<exists>cur req. fst (ValidateStep D env bc cid n vid vname role approved comments)
                       = Inl (StepMismatch cur req)) \<longleftrightarrow> n \<noteq> CurrentStep c"
  proof (cases "n = CurrentStep c")
    case False
    with assms show ?thesis by (simp add: ValidateStep_mismatch)
  next
    case n: True
    have "fst (ValidateStep D env bc cid n vid vname role approved comments)
            \<in> {Inl StepOutOfRange, Inl Panic, Inr ()}"
    proof (cases "n \<le> int (length (ValidationSteps c))")
      case False
      with assms n show ?thesis by (simp add: ValidateStep_out_of_range)
    next
      case le: True
      show ?thesis
      proof (cases "1 \<le> n")
        case False
        with assms n le show ?thesis by (simp add: ValidateStep_panic)
      next
        case ge: True
        show ?thesis
        proof (cases "Chain bc = []")
          case True
          with ValidateStep_empty_chain [OF assms n ge le True, of D env vid vname role approved comments]
          show ?thesis by simp
        next
          case False
          with ValidateStep_success_iff [OF assms, of D env n vid vname role approved comments]
            n ge le show ?thesis by simp
        qed
      qed
    qed
    with n show ?thesis by auto
  qed
next
  assume "n \<noteq> CurrentStep c"
  with assms show "ValidateStep D env bc cid n vid vname role approved comments
              = (Inl (StepMismatch (CurrentStep c) n), bc)"
    by (simp add: ValidateStep_mismatch)
next
  assume ok: "fst (ValidateStep D env bc cid n vid vname role approved comments) = Inr () \<and> approved"
  then have "fst (ValidateStep D env bc cid n vid vname role approved comments) = Inr ()"
    by (rule conjunct1)
  with ValidateStep_success_iff [OF assms, of D env n vid vname role approved comments]
  have n: "n = CurrentStep c" "1 \<le> n" "n \<le> int (length (ValidationSteps c))"
    and ne: "Chain bc \<noteq> []" by blast+
  from ValidateStep_ok [OF assms n ne, of D env vid vname role approved comments] ok
  obtain c' where
    "Contracts (snd (ValidateStep D env bc cid n vid vname role approved comments)) cid = Some c'"
    "CurrentStep c' = n + 1" "Status c' = getStatusForStep (n + 1)"
    by auto
  with getStatusForStep_next [OF n(2)]
  show "\<exists>c'. Contracts (snd (ValidateStep D env bc cid n vid vname role approved comments)) cid
                     = Some c'
                 \<and> CurrentStep c' = n + 1
                 \<and> Status c' = getStatusForStep (n + 1)
                 \<and> Status c' =
                     (if n = 1 then StatusTechnicalReview
                      else if n = 2 then StatusLegalReview
                      else if n = 3 then StatusContractsReview
                      else if n = 4 then StatusAdminReview
                      else if n = 5 then StatusBudgetReview
                      else StatusAuthorizedForPublication)"
    by auto
qed

lemma example_contract_fields:
  "CurrentStep example_contract = 1"
  "length (ValidationSteps example_contract) = 6"
  "Status example_contract = StatusDraft"
  by (simp_all add: example_contract_def InitializeContractWorkflow_def Let_def
      addAuditEntry_def GetWorkflowSteps_def)

lemma example_workflow_ledger_fields:
  "Contracts example_workflow_ledger ''c-1'' = Some example_contract"
  "Chain example_workflow_ledger \<noteq> []"
  by (simp_all add: example_workflow_ledger_def example_ledger_def NewBlockchain_def)

text \<open>
  C3 at the example ledger: step 3 is refused while step 1 is current, and approving step 1
  gives current step 2 and status TECHNICAL_REVIEW.
\<close>

theorem ValidateStep_sequential_witness:
  "Contracts example_workflow_ledger ''c-1'' = Some example_contract
   \<and> ValidateStep demo_digest example_env example_workflow_ledger ''c-1'' 3 ''v-3'' ''Ana''
        RoleLegalCommission True ''ok''
       = (Inl (StepMismatch 1 3), example_workflow_ledger)
   \<and> fst (ValidateStep demo_digest example_env example_workflow_ledger ''c-1'' 1 ''v-1'' ''Luis''
        RoleProjectDeveloper True ''ok'') = Inr ()
   \<and> (\<exists>c'. Contracts (snd (ValidateStep demo_digest example_env example_workflow_ledger ''c-1'' 1
                ''v-1'' ''Luis'' RoleProjectDeveloper True ''ok'')) ''c-1'' = Some c'
          \<and> CurrentStep c' = 2 \<and> Status c' = StatusTechnicalReview)"
proof -
  note c = example_workflow_ledger_fields(1)
  have ok: "fst (ValidateStep demo_digest example_env example_workflow_ledger ''c-1'' 1 ''v-1''
        ''Luis'' RoleProjectDeveloper True ''ok'') = Inr ()"
    using ValidateStep_success_iff [OF c, of demo_digest example_env 1 "''v-1''" "''Luis''"
        RoleProjectDeveloper True "''ok''"]
    by (simp add: example_contract_fields example_workflow_ledger_fields)
  show ?thesis
    using c ok
      ValidateStep_sequential [OF c, of demo_digest example_env 3 "''v-3''" "''Ana''"
        RoleLegalCommission True "''ok''"]
      ValidateStep_sequential [OF c, of demo_digest example_env 1 "''v-1''" "''Luis''"
        RoleProjectDeveloper True "''ok''"]
    by (auto simp: example_contract_fields)
qed

text \<open>
  C10. Two calls of \<^verbatim>\<open>ValidateStep\<close> that differ in the role only return the same result
  (the same error, or both succeed), and for every contract identifier the status, the
  current step and the validation steps after the two calls are the same.
\<close>

theorem ValidateStep_role_independent:
  "fst (ValidateStep D env bc cid n vid vname r1 approved comments)
     = fst (ValidateStep D env bc cid n vid vname r2 approved comments)
   \<and> (\<forall>k. map_option statusFields
             (Contracts (snd (ValidateStep D env bc cid n vid vname r1 approved comments)) k)
          = map_option statusFields
             (Contracts (snd (ValidateStep D env bc cid n vid vname r2 approved comments)) k))"
proof (cases "Contracts bc cid")
  case None
  then show ?thesis by (simp add: ValidateStep_not_found)
next
  case (Some c)
  show ?thesis
  proof (cases "n = CurrentStep c")
    case False
    with Some show ?thesis by (simp add: ValidateStep_mismatch)
  next
    case n: True
    show ?thesis
    proof (cases "n \<le> int (length (ValidationSteps c))")
      case False
      with Some n show ?thesis by (simp add: ValidateStep_out_of_range)
    next
      case le: True
      show ?thesis
      proof (cases "1 \<le> n")
        case False
        with Some n le show ?thesis by (simp add: ValidateStep_panic)
      next
        case ge: True
        show ?thesis
        proof (cases "Chain bc = []")
          case True
          show ?thesis
            by (simp only:
                ValidateStep_panic_chain [OF Some n ge le True, of D env vid vname r1 approved comments]
                ValidateStep_panic_chain [OF Some n ge le True, of D env vid vname r2 approved comments])
              simp
        next
          case False
          show ?thesis
            by (simp only:
                ValidateStep_ok_fields [OF Some n ge le False, of D env vid vname r1 approved comments]
                ValidateStep_ok_fields [OF Some n ge le False, of D env vid vname r2 approved comments])
              simp
        qed
      qed
    qed
  qed
qed

text \<open>
  C10 at the example ledger: step 1 approved under the role of a citizen succeeds and
  leaves the status fields that the project developer's approval leaves.
\<close>

theorem ValidateStep_role_independent_witness:
  "fst (ValidateStep demo_digest example_env example_workflow_ledger ''c-1'' 1 ''v-9'' ''Eva''
          RoleCitizen True ''ok'') = Inr ()
   \<and> map_option statusFields
        (Contracts (snd (ValidateStep demo_digest example_env example_workflow_ledger ''c-1'' 1
                          ''v-9'' ''Eva'' RoleCitizen True ''ok'')) ''c-1'')
      = map_option statusFields
        (Contracts (snd (ValidateStep demo_digest example_env example_workflow_ledger ''c-1'' 1
                          ''v-9'' ''Eva'' RoleProjectDeveloper True ''ok'')) ''c-1'')"
proof -
  have "fst (ValidateStep demo_digest example_env example_workflow_ledger ''c-1'' 1 ''v-9'' ''Eva''
          RoleProjectDeveloper True ''ok'') = Inr ()"
    using ValidateStep_success_iff [OF example_workflow_ledger_fields(1), of demo_digest
        example_env 1 "''v-9''" "''Eva''" RoleProjectDeveloper True "''ok''"]
    by (simp add: example_contract_fields example_workflow_ledger_fields)
  with ValidateStep_role_independent [of demo_digest example_env example_workflow_ledger
      "''c-1''" 1 "''v-9''" "''Eva''" RoleCitizen True "''ok''" RoleProjectDeveloper]
  show ?thesis by simp
qed

lemma example_rejected_ledger_fields:
  "fst (ValidateStep demo_digest example_env example_workflow_ledger ''c-1'' 1 ''v-1'' ''Luis''
          RoleProjectDeveloper False ''no'') = Inr ()"
  "Chain example_rejected_ledger \<noteq> []"
  "\<exists>c. Contracts example_rejected_ledger ''c-1'' = Some c \<and> Status c = StatusRejected
        \<and> CurrentStep c = 1 \<and> length (ValidationSteps c) = 6"
proof -
  from ValidateStep_ok [OF example_workflow_ledger_fields(1) _ _ _ example_workflow_ledger_fields(2),
      of 1 demo_digest example_env "''v-1''" "''Luis''" RoleProjectDeveloper False "''no''"]
  obtain c' block where r:
    "ValidateStep demo_digest example_env example_workflow_ledger ''c-1'' 1 ''v-1'' ''Luis''
          RoleProjectDeveloper False ''no''
       = (Inr (), example_workflow_ledger\<lparr>Chain := Chain example_workflow_ledger @ [block],
            Contracts := (Contracts example_workflow_ledger)(''c-1'' \<mapsto> c')\<rparr>)"
    "Status c' = StatusRejected" "CurrentStep c' = 1"
    "length (ValidationSteps c') = 6"
    by (auto simp: example_contract_fields)
  from r(1) show "fst (ValidateStep demo_digest example_env example_workflow_ledger ''c-1'' 1
      ''v-1'' ''Luis'' RoleProjectDeveloper False ''no'') = Inr ()"
    by simp
  from r(1) show "Chain example_rejected_ledger \<noteq> []"
    by (simp add: example_rejected_ledger_def)
  from r show "\<exists>c. Contracts example_rejected_ledger ''c-1'' = Some c \<and> Status c = StatusRejected
        \<and> CurrentStep c = 1 \<and> length (ValidationSteps c) = 6"
    by (simp add: example_rejected_ledger_def)
qed

text \<open>
  C2 fails on the code. In the example ledger step 1 is rejected: the call succeeds, the
  status is REJECTED and \<^verbatim>\<open>GetContractWorkflowStatus\<close> reports that the contract cannot
  advance. A second call on the same step, approved, succeeds all the same and changes the
  status, the current step and the step: the status becomes TECHNICAL_REVIEW and the
  current step 2.
\<close>

theorem ValidateStep_after_rejection:
  "fst (ValidateStep demo_digest example_env example_workflow_ledger ''c-1'' 1 ''v-1'' ''Luis''
          RoleProjectDeveloper False ''no'') = Inr ()
   \<and> map_option Status (Contracts example_rejected_ledger ''c-1'') = Some StatusRejected
   \<and> (\<exists>report. GetContractWorkflowStatus example_rejected_ledger ''c-1'' = Inr report
         \<and> \<not> CanAdvance report)
   \<and> fst (ValidateStep demo_digest example_env example_rejected_ledger ''c-1'' 1 ''v-1'' ''Luis''
          RoleProjectDeveloper True ''ok'') = Inr ()
   \<and> map_option statusFields
        (Contracts (snd (ValidateStep demo_digest example_env example_rejected_ledger ''c-1'' 1
                          ''v-1'' ''Luis'' RoleProjectDeveloper True ''ok'')) ''c-1'')
       \<noteq> map_option statusFields (Contracts example_rejected_ledger ''c-1'')
   \<and> map_option Status
        (Contracts (snd (ValidateStep demo_digest example_env example_rejected_ledger ''c-1'' 1
                          ''v-1'' ''Luis'' RoleProjectDeveloper True ''ok'')) ''c-1'')
       = Some StatusTechnicalReview
   \<and> map_option CurrentStep
        (Contracts (snd (ValidateStep demo_digest example_env example_rejected_ledger ''c-1'' 1
                          ''v-1'' ''Luis'' RoleProjectDeveloper True ''ok'')) ''c-1'')
       = Some 2"
proof -
  from example_rejected_ledger_fields(3) obtain c where
    c: "Contracts example_rejected_ledger ''c-1'' = Some c" "Status c = StatusRejected"
      "CurrentStep c = 1" "length (ValidationSteps c) = 6"
    by blast
  have report: "\<exists>report. GetContractWorkflowStatus example_rejected_ledger ''c-1'' = Inr report
         \<and> \<not> CanAdvance report"
    using c by (simp add: GetContractWorkflowStatus_def getNextRole_def)
  from ValidateStep_ok [OF c(1) _ _ _ example_rejected_ledger_fields(2),
      of 1 demo_digest example_env "''v-1''" "''Luis''" RoleProjectDeveloper True "''ok''"] c
  obtain c' block where r:
    "ValidateStep demo_digest example_env example_rejected_ledger ''c-1'' 1 ''v-1'' ''Luis''
          RoleProjectDeveloper True ''ok''
       = (Inr (), example_rejected_ledger\<lparr>Chain := Chain example_rejected_ledger @ [block],
            Contracts := (Contracts example_rejected_ledger)(''c-1'' \<mapsto> c')\<rparr>)"
    "Status c' = getStatusForStep 2" "CurrentStep c' = 2"
    by auto
  have st: "getStatusForStep 2 = StatusTechnicalReview"
    "StatusTechnicalReview \<noteq> StatusRejected"
    by (simp_all add: getStatusForStep_def StatusTechnicalReview_def StatusRejected_def)
  show ?thesis
    using example_rejected_ledger_fields(1) c report r st
    by (simp add: statusFields_def)
qed

subsection \<open>AddAuditObservation\<close>

lemma setLastBlockHash_snoc:
  "setLastBlockHash h (trail @ [entry]) = trail @ [entry\<lparr>BlockHash := h\<rparr>]"
  by (simp add: setLastBlockHash_def)

lemma AddAuditObservation_not_found:
  "Contracts bc cid = None \<Longrightarrow>
     AddAuditObservation D env bc cid auditor role observation = (Inl ContractNotFound, bc)"
  by (simp add: AddAuditObservation_def)

lemma AddAuditObservation_refused:
  "Contracts bc cid = Some c \<Longrightarrow>
   role \<noteq> RoleComptroller \<Longrightarrow> role \<noteq> RoleProsecutor \<Longrightarrow> role \<noteq> RoleCitizen \<Longrightarrow>
     AddAuditObservation D env bc cid auditor role observation = (Inl RoleNotAuthorized, bc)"
  by (simp add: AddAuditObservation_def)

lemma AddAuditObservation_empty_chain:
  "Contracts bc cid = Some c \<Longrightarrow>
   role = RoleComptroller \<or> role = RoleProsecutor \<or> role = RoleCitizen \<Longrightarrow> Chain bc = [] \<Longrightarrow>
     fst (AddAuditObservation D env bc cid auditor role observation) = Inl Panic"
  by (auto simp: AddAuditObservation_def Let_def AddBlock_empty)

lemma AddAuditObservation_ok:
  assumes c: "Contracts bc cid = Some c"
    and r: "role = RoleComptroller \<or> role = RoleProsecutor \<or> role = RoleCitizen"
    and ne: "Chain bc \<noteq> []"
  shows "\<exists>entry block.
           AddAuditObservation D env bc cid auditor role observation
             = (Inr (), bc\<lparr>Chain := Chain bc @ [block],
                  Contracts := (Contracts bc)(cid \<mapsto> c\<lparr>AuditTrail := AuditTrail c @ [entry]\<rparr>)\<rparr>)
         \<and> Action entry = ''AUDIT_OBSERVATION''
         \<and> UserID entry = auditor
         \<and> UserRole entry = role
         \<and> AuditDescription entry = observation
         \<and> BlockHash entry = Hash block
         \<and> Index block = int (length (Chain bc))
         \<and> Type block = ''AUDIT_OBSERVATION''
         \<and> Data block = auditBlockData env cid auditor role observation"
proof -
  define payload where "payload = auditBlockData env cid auditor role observation"
  have ty: "payload ''type'' = Some (VString ''AUDIT_OBSERVATION'')"
    by (simp add: payload_def auditBlockData_def)
  define entry where "entry = \<lparr>AuditID = auditID env, Action = ''AUDIT_OBSERVATION'',
      UserID = auditor, UserRole = role, AuditTimestamp = auditTime env,
      AuditDescription = observation, IPAddress = '''', BlockHash = ''''\<rparr>"
  define bc1 where
    "bc1 = bc\<lparr>Contracts := (Contracts bc)(cid \<mapsto> c\<lparr>AuditTrail := AuditTrail c @ [entry]\<rparr>)\<rparr>"
  from ne have ne1: "Chain bc1 \<noteq> []" by (simp add: bc1_def)
  from AddBlock_ok [OF ne1, of D "blockTime env" payload] obtain block where
    b: "AddBlock D (blockTime env) bc1 payload = (Inr block, bc1\<lparr>Chain := Chain bc1 @ [block]\<rparr>)"
      "Index block = int (length (Chain bc1))" "Data block = payload"
      "Type block = (case payload ''type'' of Some (VString t) \<Rightarrow> t | _ \<Rightarrow> '''')"
    by blast
  have "AddAuditObservation D env bc cid auditor role observation
      = (Inr (), bc\<lparr>Chain := Chain bc @ [block],
           Contracts := (Contracts bc)(cid \<mapsto>
             c\<lparr>AuditTrail := AuditTrail c @ [entry\<lparr>BlockHash := Hash block\<rparr>]\<rparr>)\<rparr>)"
    using c r b(1)
    unfolding bc1_def entry_def payload_def
    by (auto simp: AddAuditObservation_def Let_def setLastBlockHash_snoc)
  then show ?thesis
    using b(2-) ty
    by (intro exI [of _ "entry\<lparr>BlockHash := Hash block\<rparr>"] exI [of _ block])
      (simp add: entry_def bc1_def payload_def)
qed

text \<open>
  C8. For a contract of the map, \<^verbatim>\<open>AddAuditObservation\<close> returns the role error and leaves
  the ledger as it was when the role is none of COMPTROLLER, PROSECUTOR and CITIZEN, and
  does not return that error for one of the three. When it succeeds, the ledger differs
  from the one before in two places only: the contract's audit trail has one more entry
  (every other field of the contract, its status, current step and validation steps among
  them, is as before), and one block of type AUDIT_OBSERVATION is appended to the chain.
\<close>

theorem AddAuditObservation_frame:
  assumes "Contracts bc cid = Some c"
  shows "(role \<noteq> RoleComptroller \<and> role \<noteq> RoleProsecutor \<and> role \<noteq> RoleCitizen \<longrightarrow>
            AddAuditObservation D env bc cid auditor role observation = (Inl RoleNotAuthorized, bc))
       \<and> (role = RoleComptroller \<or> role = RoleProsecutor \<or> role = RoleCitizen \<longrightarrow>
            fst (AddAuditObservation D env bc cid auditor role observation) \<noteq> Inl RoleNotAuthorized)
       \<and> (fst (AddAuditObservation D env bc cid auditor role observation) = Inr () \<longrightarrow>
            (\<exists>entry block.
               snd (AddAuditObservation D env bc cid auditor role observation)
                 = bc\<lparr>Chain := Chain bc @ [block],
                      Contracts := (Contracts bc)(cid \<mapsto> c\<lparr>AuditTrail := AuditTrail c @ [entry]\<rparr>)\<rparr>
               \<and> Action entry = ''AUDIT_OBSERVATION''
               \<and> UserRole entry = role
               \<and> BlockHash entry = Hash block
               \<and> Type block = ''AUDIT_OBSERVATION''))"
proof (cases "role = RoleComptroller \<or> role = RoleProsecutor \<or> role = RoleCitizen")
  case False
  with AddAuditObservation_refused [OF assms, of role D env auditor observation]
  show ?thesis by simp
next
  case r: True
  show ?thesis
  proof (cases "Chain bc = []")
    case True
    from AddAuditObservation_empty_chain [OF assms r True, of D env auditor observation] r
    show ?thesis by auto
  next
    case False
    from AddAuditObservation_ok [OF assms r False, of D env auditor observation]
    obtain entry block where
      "AddAuditObservation D env bc cid auditor role observation
             = (Inr (), bc\<lparr>Chain := Chain bc @ [block],
                  Contracts := (Contracts bc)(cid \<mapsto> c\<lparr>AuditTrail := AuditTrail c @ [entry]\<rparr>)\<rparr>)"
      "Action entry = ''AUDIT_OBSERVATION''" "UserRole entry = role"
      "BlockHash entry = Hash block" "Type block = ''AUDIT_OBSERVATION''"
      by blast
    with r show ?thesis by auto
  qed
qed

text \<open>
  C8 at the example ledger: the project developer is refused, the citizen's observation
  is recorded.
\<close>

theorem AddAuditObservation_frame_witness:
  "Contracts example_workflow_ledger ''c-1'' = Some example_contract
   \<and> AddAuditObservation demo_digest example_env example_workflow_ledger ''c-1'' ''v-1''
        RoleProjectDeveloper ''note'' = (Inl RoleNotAuthorized, example_workflow_ledger)
   \<and> fst (AddAuditObservation demo_digest example_env example_workflow_ledger ''c-1'' ''v-9''
        RoleCitizen ''note'') = Inr ()
   \<and> (\<exists>entry block.
         snd (AddAuditObservation demo_digest example_env example_workflow_ledger ''c-1'' ''v-9''
                RoleCitizen ''note'')
           = example_workflow_ledger\<lparr>Chain := Chain example_workflow_ledger @ [block],
                Contracts := (Contracts example_workflow_ledger)(''c-1'' \<mapsto>
                   example_contract\<lparr>AuditTrail := AuditTrail example_contract @ [entry]\<rparr>)\<rparr>
         \<and> Action entry = ''AUDIT_OBSERVATION''
         \<and> UserRole entry = RoleCitizen
         \<and> BlockHash entry = Hash block
         \<and> Type block = ''AUDIT_OBSERVATION'')"
proof -
  note c = example_workflow_ledger_fields(1)
  have dev: "RoleProjectDeveloper \<noteq> RoleComptroller \<and> RoleProjectDeveloper \<noteq> RoleProsecutor
      \<and> RoleProjectDeveloper \<noteq> RoleCitizen"
    by (simp add: RoleProjectDeveloper_def RoleComptroller_def RoleProsecutor_def RoleCitizen_def)
  from AddAuditObservation_ok [OF c _ example_workflow_ledger_fields(2), of RoleCitizen
      demo_digest example_env "''v-9''" "''note''"]
  have ok: "fst (AddAuditObservation demo_digest example_env example_workflow_ledger ''c-1''
      ''v-9'' RoleCitizen ''note'') = Inr ()"
    by auto
  show ?thesis
    using c dev ok
      AddAuditObservation_frame [OF c, of RoleProjectDeveloper demo_digest example_env
        "''v-1''" "''note''"]
      AddAuditObservation_frame [OF c, of RoleCitizen demo_digest example_env
        "''v-9''" "''note''"]
    by simp
qed

subsection \<open>ReceiveBlock\<close>

lemma HasBlock_iff: "HasBlock bc h \<longleftrightarrow> h \<in> Hash ` set (Chain bc)"
proof -
  have "HasBlock_loop chain h \<longleftrightarrow> h \<in> Hash ` set chain" for chain
    by (induction chain) auto
  then show ?thesis by (simp add: HasBlock_def)
qed

lemma example_ledger_chain:
  "Chain example_ledger = [genesisBlock demo_digest 1700000000000000000]"
  by (simp add: example_ledger_def NewBlockchain_def)

text \<open>
  C4 (as amended). For a block whose hash is already in the chain, \<^verbatim>\<open>ReceiveBlock\<close>
  leaves the ledger as it was, and so does receiving it again: it returns nil when the
  block passes \<^verbatim>\<open>IsValidBlock\<close> and the invalid-block error otherwise, the validation
  coming before the look-up of the hash.
\<close>

theorem ReceiveBlock_present_hash:
  assumes "HasBlock bc (Hash b)"
  shows "ReceiveBlock D now bc b
           = (if IsValidBlock D bc b then Inr () else Inl InvalidBlockReceived, bc)
       \<and> snd (ReceiveBlock D later (snd (ReceiveBlock D now bc b)) b) = bc"
  using assms by (simp add: ReceiveBlock_def)

text \<open>
  C4 as stated fails: the forged block carries the hash of the genesis block, which is in
  the chain, and \<^verbatim>\<open>ReceiveBlock\<close> returns the invalid-block error, not nil. This holds
  for every digest: the block's previous hash has four characters and no hash has.
\<close>

theorem ReceiveBlock_present_hash_counterexample:
  "HasBlock example_ledger (Hash example_forged_block)
   \<and> ReceiveBlock demo_digest 1700000005000000000 example_ledger example_forged_block
       = (Inl InvalidBlockReceived, example_ledger)
   \<and> fst (ReceiveBlock demo_digest 1700000005000000000 example_ledger example_forged_block)
       \<noteq> Inr ()"
proof -
  have h: "HasBlock example_ledger (Hash example_forged_block)"
    by (simp add: HasBlock_def example_ledger_chain example_forged_block_def)
  have "Hash (last (Chain example_ledger)) \<noteq> PreviousHash example_forged_block"
  proof
    assume "Hash (last (Chain example_ledger)) = PreviousHash example_forged_block"
    then have "calculateHash demo_digest (genesisBlock demo_digest 1700000000000000000) = ''feed''"
      by (simp add: example_ledger_chain example_forged_block_def genesisBlock_fields(3) [symmetric])
    then have "length (calculateHash demo_digest (genesisBlock demo_digest 1700000000000000000)) = 4"
      by simp
    then show False
      by (simp add: calculateHash_def length_hex_EncodeToString)
  qed
  then have "\<not> IsValidBlock demo_digest example_ledger example_forged_block"
    by (simp add: IsValidBlock_def example_forged_block_def)
  then show ?thesis
    using h by (simp add: ReceiveBlock_def)
qed

text \<open>
  The amended C4 at the example ledger, receiving its own genesis block, twice.
\<close>

theorem ReceiveBlock_present_hash_witness:
  "HasBlock example_ledger (Hash (genesisBlock demo_digest 1700000000000000000))
   \<and> ReceiveBlock demo_digest 1700000005000000000 example_ledger
        (genesisBlock demo_digest 1700000000000000000) = (Inr (), example_ledger)
   \<and> snd (ReceiveBlock demo_digest 1700000006000000000
             (snd (ReceiveBlock demo_digest 1700000005000000000 example_ledger
                     (genesisBlock demo_digest 1700000000000000000)))
             (genesisBlock demo_digest 1700000000000000000)) = example_ledger"
proof -
  have h: "HasBlock example_ledger (Hash (genesisBlock demo_digest 1700000000000000000))"
    by (simp add: HasBlock_def example_ledger_chain)
  have v: "IsValidBlock demo_digest example_ledger (genesisBlock demo_digest 1700000000000000000)"
    using genesisBlock_fields [of demo_digest 1700000000000000000]
    by (simp add: IsValidBlock_def calculateHash_nonempty)
  show ?thesis
    using h v
      ReceiveBlock_present_hash [OF h, of demo_digest 1700000005000000000 1700000006000000000]
    by (simp add: ReceiveBlock_def)
qed

lemma gvalue_not_nested_in_itself:
  "v = VMap m \<Longrightarrow> m key \<noteq> Some v"
proof (induction v arbitrary: m)
  case (VMap f)
  show ?case
  proof
    assume eq: "m key = Some (VMap f)"
    from VMap.prems have fm: "f = m" by simp
    with eq have "f key = Some (VMap f)" by simp
    then have inner: "VMap f \<in> set_option (f key)" by simp
    have "f key \<in> range f" by (rule rangeI)
    from VMap.IH [OF this inner refl] eq fm show False by simp
  qed
qed simp_all

lemma receivedBlockData_differs: "receivedBlockData b \<noteq> Data b"
proof
  assume "receivedBlockData b = Data b"
  then have "receivedBlockData b ''data'' = Data b ''data''" by simp
  then have "Data b ''data'' = Some (VMap (Data b))"
    by (simp add: receivedBlockData_def)
  with gvalue_not_nested_in_itself [OF refl, of "Data b" "''data''"] show False by simp
qed

lemma dom_receivedBlockData:
  "dom (receivedBlockData b) = {''type'', ''data'', ''timestamp'', ''previous_hash'', ''nonce''}"
  by (auto simp: receivedBlockData_def split: if_splits)

text \<open>
  C9. When \<^verbatim>\<open>ReceiveBlock\<close> accepts a block whose hash was not in the chain, the chain
  grows by one block built locally: its payload is the envelope of five keys around the
  received block's fields (the received payload under \<open>data\<close>), its timestamp is the local
  time, its index the length of the chain before, its hash recomputed. The payload stored
  is not the received one, and the block stored is not the received one.
\<close>

theorem ReceiveBlock_appends_wrapper:
  assumes "fst (ReceiveBlock D now bc b) = Inr ()" and "\<not> HasBlock bc (Hash b)"
  shows "\<exists>added. snd (ReceiveBlock D now bc b) = bc\<lparr>Chain := Chain bc @ [added]\<rparr>
           \<and> Data added = receivedBlockData b
           \<and> dom (Data added) = {''type'', ''data'', ''timestamp'', ''previous_hash'', ''nonce''}
           \<and> Data added ''data'' = Some (VMap (Data b))
           \<and> Timestamp added = now
           \<and> Index added = int (length (Chain bc))
           \<and> PreviousHash added = Hash (last (Chain bc))
           \<and> Type added = Type b
           \<and> Hash added = calculateHash D added
           \<and> Data added \<noteq> Data b
           \<and> added \<noteq> b"
proof -
  from assms have valid: "IsValidBlock D bc b"
    by (auto simp: ReceiveBlock_def split: if_splits)
  have ne: "Chain bc \<noteq> []"
  proof
    assume "Chain bc = []"
    with assms valid show False
      by (simp add: ReceiveBlock_def AddBlock_empty)
  qed
  from AddBlock_ok [OF ne, of D now "receivedBlockData b"] obtain added where
    a: "AddBlock D now bc (receivedBlockData b) = (Inr added, bc\<lparr>Chain := Chain bc @ [added]\<rparr>)"
      "Index added = int (length (Chain bc))" "Timestamp added = now"
      "Data added = receivedBlockData b" "PreviousHash added = Hash (last (Chain bc))"
      "Type added = (case receivedBlockData b ''type'' of Some (VString t) \<Rightarrow> t | _ \<Rightarrow> '''')"
      "Hash added = calculateHash D added"
    by blast
  from a(6) have ty: "Type added = Type b" by (simp add: receivedBlockData_def)
  from a(4) have d: "Data added \<noteq> Data b" by (simp add: receivedBlockData_differs)
  then have "added \<noteq> b" by auto
  moreover from a(4) have "Data added ''data'' = Some (VMap (Data b))"
    by (simp add: receivedBlockData_def)
  moreover from valid assms(2) a(1)
  have "snd (ReceiveBlock D now bc b) = bc\<lparr>Chain := Chain bc @ [added]\<rparr>"
    by (simp add: ReceiveBlock_def)
  ultimately show ?thesis
    using a(2-5,7) ty d by (intro exI [of _ added]) (simp add: dom_receivedBlockData)
qed

lemma demo_hash_second_digit:
  "calculateHash demo_digest b ! Suc 0
     = hexdigit (unat (word_of_int (Index b + Unix (Timestamp b)) :: 8 word) mod 16)"
proof -
  have "[0..<32] = 0 # [1..<32]" by (simp add: upt_conv_Cons)
  then show ?thesis
    by (simp add: calculateHash_def hex_EncodeToString_def demo_digest_def hash_record_def)
qed

lemma example_received_block_fields:
  "Index example_received_block = 1"
  "PreviousHash example_received_block = Hash (genesisBlock demo_digest 1700000000000000000)"
  "Hash example_received_block = calculateHash demo_digest example_received_block"
  by (simp_all add: example_received_block_def Let_def calculateHash_def hash_record_def)

lemma example_received_block_time:
  "Timestamp example_received_block = 1700000002000000000"
  by (simp add: example_received_block_def Let_def)

lemma genesisBlock_time: "Timestamp (genesisBlock D now) = now"
  by (simp add: genesisBlock_def Let_def)

lemma example_received_block_new:
  "Hash example_received_block \<noteq> Hash (genesisBlock demo_digest 1700000000000000000)"
proof
  assume "Hash example_received_block = Hash (genesisBlock demo_digest 1700000000000000000)"
  then have "calculateHash demo_digest example_received_block ! 1
      = calculateHash demo_digest (genesisBlock demo_digest 1700000000000000000) ! 1"
    by (simp add: example_received_block_fields(3) [symmetric] genesisBlock_fields(3) [symmetric])
  then show False
    by (simp add: demo_hash_second_digit example_received_block_fields genesisBlock_fields
        example_received_block_time genesisBlock_time Unix_def hexdigit_def)
qed

text \<open>
  C9 at the example ledger, receiving a block built on its genesis block.
\<close>

theorem ReceiveBlock_appends_wrapper_witness:
  "fst (ReceiveBlock demo_digest 1700000005000000000 example_ledger example_received_block)
     = Inr ()
   \<and> \<not> HasBlock example_ledger (Hash example_received_block)
   \<and> (\<exists>added. snd (ReceiveBlock demo_digest 1700000005000000000 example_ledger
                      example_received_block)
                 = example_ledger\<lparr>Chain := Chain example_ledger @ [added]\<rparr>
          \<and> Data added = receivedBlockData example_received_block
          \<and> Data added ''data'' = Some (VMap example_payload)
          \<and> Timestamp added = 1700000005000000000
          \<and> Index added = 1
          \<and> Type added = ''NOTE''
          \<and> Data added \<noteq> Data example_received_block
          \<and> added \<noteq> example_received_block)"
proof -
  have nh: "\<not> HasBlock example_ledger (Hash example_received_block)"
    using example_received_block_new by (simp add: HasBlock_def example_ledger_chain)
  have v: "IsValidBlock demo_digest example_ledger example_received_block"
    using example_received_block_fields
    by (simp add: IsValidBlock_def calculateHash_nonempty example_ledger_chain)
  have ne: "Chain example_ledger \<noteq> []" by (simp add: example_ledger_chain)
  from AddBlock_ok [OF ne, of demo_digest 1700000005000000000
      "receivedBlockData example_received_block"]
  have ok: "fst (ReceiveBlock demo_digest 1700000005000000000 example_ledger
      example_received_block) = Inr ()"
    using nh v by (auto simp: ReceiveBlock_def)
  have f: "Data example_received_block = example_payload" "Type example_received_block = ''NOTE''"
    by (simp_all add: example_received_block_def Let_def)
  from ReceiveBlock_appends_wrapper [OF ok nh] f show ?thesis
    using ok nh by (auto simp: example_ledger_chain)
qed

subsection \<open>SyncWithPeers\<close>

lemma json_Unmarshal_of_Sprintf: "json_Unmarshal decode (fmt_Sprintf_v entries m) = None"
  by (simp add: json_Unmarshal_def fmt_Sprintf_v_def isSpace_def beginsValue_def)

lemma rebuild_loop_keeps: "rebuild_loop entries decode chain contracts = contracts"
  by (induction chain arbitrary: contracts) (simp_all add: json_Unmarshal_of_Sprintf)

lemma rebuildContractsFromChain_empty:
  "rebuildContractsFromChain entries decode bc = bc\<lparr>Contracts := Map.empty\<rparr>"
  by (simp add: rebuildContractsFromChain_def rebuild_loop_keeps)

text \<open>
  C7 fails on the code. \<^verbatim>\<open>rebuildContractsFromChain\<close> hands the \<^verbatim>\<open>%v\<close> rendering of the
  payload, which starts with \<^verbatim>\<open>map[\<close>, to the JSON decoder, which refuses it: no block
  is ever decoded, and the contracts map is empty after every rebuild, whatever the
  rendering of the entries and the decoder. The example ledger holds contract \<open>c-1\<close>; the
  peer's chain is longer and valid and its second block records the creation of \<open>c-1\<close>;
  after \<^verbatim>\<open>SyncWithPeers\<close> the chain is the peer's and there is no contract.
\<close>

theorem SyncWithPeers_rebuilds_nothing:
  "Contracts (rebuildContractsFromChain entries decode bc) = Map.empty
   \<and> Contracts example_workflow_ledger ''c-1'' = Some example_contract
   \<and> Type (example_creation_chain ! 1) = ''CONTRACT_CREATION''
   \<and> Data (example_creation_chain ! 1) ''contract_id'' = Some (VString ''c-1'')
   \<and> SyncWithPeers entries decode [(example_peer, Some example_creation_chain)]
        example_workflow_ledger
       = (Inr (), \<lparr>Chain = example_creation_chain, Contracts = Map.empty\<rparr>)"
proof -
  have "length example_creation_chain = 2" "IsValidChain example_creation_chain"
    by (simp_all add: example_creation_chain_def IsValidChain_def)
  moreover have "length (Chain example_workflow_ledger) = 1"
    by (simp add: example_workflow_ledger_def example_ledger_chain)
  ultimately have "SyncWithPeers entries decode [(example_peer, Some example_creation_chain)]
        example_workflow_ledger
       = (Inr (), \<lparr>Chain = example_creation_chain, Contracts = Map.empty\<rparr>)"
    by (simp add: SyncWithPeers_def example_peer_def rebuildContractsFromChain_empty)
  moreover have "Type (example_creation_chain ! 1) = ''CONTRACT_CREATION''"
    "Data (example_creation_chain ! 1) ''contract_id'' = Some (VString ''c-1'')"
    by (simp_all add: example_creation_chain_def)
  ultimately show ?thesis
    by (simp add: rebuildContractsFromChain_empty example_workflow_ledger_fields)
qed

subsection \<open>Receiving a block whose hash is not in the chain, twice\<close>

text \<open>
  What the property of present hashes leaves open. A block with an index of 0 or less passes
  \<^verbatim>\<open>IsValidBlock\<close> whatever the chain is, and the block \<^verbatim>\<open>ReceiveBlock\<close> appends carries a
  hash of its own: unless that hash happens to be the received one, the received hash is
  never in the chain, and receiving the block twice appends two blocks.
\<close>

lemma ReceiveBlock_twice_appends_twice:
  assumes v: "IsValidBlock D bc b" and i: "Index b \<le> 0" and ne: "Chain bc \<noteq> []"
    and new: "\<not> HasBlock bc (Hash b)"
    and fresh: "\<And>w. Data w = receivedBlockData b \<Longrightarrow>
                  Index w = int (length (Chain bc)) \<and> Timestamp w = now
                  \<or> Index w = int (length (Chain bc)) + 1 \<and> Timestamp w = later \<Longrightarrow>
                  calculateHash D w \<noteq> Hash b"
  shows "\<exists>w1 w2. snd (ReceiveBlock D later (snd (ReceiveBlock D now bc b)) b)
                    = bc\<lparr>Chain := Chain bc @ [w1, w2]\<rparr>
           \<and> Data w1 = receivedBlockData b \<and> Data w2 = receivedBlockData b
           \<and> \<not> HasBlock (bc\<lparr>Chain := Chain bc @ [w1, w2]\<rparr>) (Hash b)"
proof -
  from AddBlock_ok [OF ne, of D now "receivedBlockData b"] obtain w1 where
    w1: "AddBlock D now bc (receivedBlockData b) = (Inr w1, bc\<lparr>Chain := Chain bc @ [w1]\<rparr>)"
      "Index w1 = int (length (Chain bc))" "Data w1 = receivedBlockData b"
      "Hash w1 = calculateHash D w1" "Timestamp w1 = now"
    by blast
  define bc1 where "bc1 = bc\<lparr>Chain := Chain bc @ [w1]\<rparr>"
  from v new w1(1) have first: "snd (ReceiveBlock D now bc b) = bc1"
    by (simp add: ReceiveBlock_def bc1_def)
  from fresh [OF w1(3)] w1(2,4,5) have h1: "Hash w1 \<noteq> Hash b" by simp
  have ne1: "Chain bc1 \<noteq> []" by (simp add: bc1_def)
  from v i have v1: "IsValidBlock D bc1 b"
    by (simp add: IsValidBlock_def split: if_splits)
  from new h1 have new1: "\<not> HasBlock bc1 (Hash b)"
    by (auto simp: HasBlock_iff bc1_def)
  from AddBlock_ok [OF ne1, of D later "receivedBlockData b"] obtain w2 where
    w2: "AddBlock D later bc1 (receivedBlockData b) = (Inr w2, bc1\<lparr>Chain := Chain bc1 @ [w2]\<rparr>)"
      "Index w2 = int (length (Chain bc1))" "Data w2 = receivedBlockData b"
      "Hash w2 = calculateHash D w2" "Timestamp w2 = later"
    by blast
  from v1 new1 w2(1) have second: "snd (ReceiveBlock D later bc1 b) = bc\<lparr>Chain := Chain bc @ [w1, w2]\<rparr>"
    by (simp add: ReceiveBlock_def bc1_def)
  from w2(2) have "Index w2 = int (length (Chain bc)) + 1" by (simp add: bc1_def)
  with fresh [OF w2(3)] w2(4,5) have h2: "Hash w2 \<noteq> Hash b" by simp
  from new h1 h2 have "\<not> HasBlock (bc\<lparr>Chain := Chain bc @ [w1, w2]\<rparr>) (Hash b)"
    by (auto simp: HasBlock_iff)
  with first second w1(3) w2(3) show ?thesis by auto
qed

lemma example_unlinked_block_fields:
  "Index example_unlinked_block = 0"
  "Timestamp example_unlinked_block = 1700000002000000000"
  "Hash example_unlinked_block = calculateHash demo_digest example_unlinked_block"
  by (simp_all add: example_unlinked_block_def Let_def calculateHash_def hash_record_def)

lemma demo_hash_differs:
  "hexdigit (unat (word_of_int (Index a + Unix (Timestamp a)) :: 8 word) mod 16)
     \<noteq> hexdigit (unat (word_of_int (Index b + Unix (Timestamp b)) :: 8 word) mod 16)
   \<Longrightarrow> calculateHash demo_digest a \<noteq> calculateHash demo_digest b"
  using demo_hash_second_digit [of a] demo_hash_second_digit [of b] by auto

lemma example_unlinked_block_twice:
  "\<exists>w1 w2. snd (ReceiveBlock demo_digest 1700000006000000000
                  (snd (ReceiveBlock demo_digest 1700000005000000000 example_ledger
                          example_unlinked_block))
                  example_unlinked_block)
             = example_ledger\<lparr>Chain := Chain example_ledger @ [w1, w2]\<rparr>
       \<and> Data w1 = receivedBlockData example_unlinked_block
       \<and> Data w2 = receivedBlockData example_unlinked_block
       \<and> \<not> HasBlock (example_ledger\<lparr>Chain := Chain example_ledger @ [w1, w2]\<rparr>)
             (Hash example_unlinked_block)"
proof (rule ReceiveBlock_twice_appends_twice)
  show "IsValidBlock demo_digest example_ledger example_unlinked_block"
    using example_unlinked_block_fields
    by (simp add: IsValidBlock_def calculateHash_nonempty)
  show "Index example_unlinked_block \<le> 0"
    by (simp add: example_unlinked_block_fields)
  show "Chain example_ledger \<noteq> []" by (simp add: example_ledger_chain)
  have "calculateHash demo_digest example_unlinked_block
      \<noteq> calculateHash demo_digest (genesisBlock demo_digest 1700000000000000000)"
    by (rule demo_hash_differs)
      (simp add: example_unlinked_block_fields genesisBlock_fields genesisBlock_time Unix_def
        hexdigit_def)
  then show "\<not> HasBlock example_ledger (Hash example_unlinked_block)"
    by (simp add: HasBlock_def example_ledger_chain example_unlinked_block_fields(3) [symmetric]
        genesisBlock_fields(3) [symmetric])
next
  fix w :: Block
  assume "Index w = int (length (Chain example_ledger)) \<and> Timestamp w = 1700000005000000000
       \<or> Index w = int (length (Chain example_ledger)) + 1 \<and> Timestamp w = 1700000006000000000"
  then have "Index w = 1 \<and> Timestamp w = 1700000005000000000
       \<or> Index w = 2 \<and> Timestamp w = 1700000006000000000"
    by (simp add: example_ledger_chain)
  then have "calculateHash demo_digest w \<noteq> calculateHash demo_digest example_unlinked_block"
    by (intro demo_hash_differs)
      (auto simp: example_unlinked_block_fields Unix_def hexdigit_def)
  then show "calculateHash demo_digest w \<noteq> Hash example_unlinked_block"
    by (simp add: example_unlinked_block_fields(3) [symmetric])
qed

end
